theory Spec2Isabelle
  imports Main "HOL-Library.Word"
begin

section \<open>Basic types of the reporter\<close>

text \<open>
  The embedding follows \<^verbatim>\<open>v1/tv/internal/traceview/reporter.go\<close> (the gRPC reporter) and
  the event preparation of \<^verbatim>\<open>v1/ao/internal/reporter/reporter.go\<close>.

  A \<^verbatim>\<open>[]byte\<close> is a list of bytes. A \<^verbatim>\<open>time.Time\<close> is the number of nanoseconds
  since the zero time \<^verbatim>\<open>time.Time{}\<close> (so the zero time is 0, \<^verbatim>\<open>After\<close> is \<open>>\<close>,
  \<^verbatim>\<open>Before\<close> is \<open><\<close> and \<^verbatim>\<open>Add\<close> is \<open>+\<close>). A \<^verbatim>\<open>time.Duration\<close> is an int64
  number of nanoseconds. Go's \<^verbatim>\<open>int\<close> is taken to be 64 bits wide; arithmetic on
  counters and durations wraps around, which \<open>wrap64\<close> writes out.
\<close>

type_synonym bytes = "8 word list"
type_synonym Time = int
type_synonym Duration = int
type_synonym client = nat

definition wrap64 :: "int \<Rightarrow> int" where
  "wrap64 x = signed_take_bit 63 x"

definition fits64 :: "int \<Rightarrow> bool" where
  "fits64 x \<longleftrightarrow> - (2 ^ 63) \<le> x \<and> x < 2 ^ 63"

definition Millisecond :: Duration where
  "Millisecond = 1000000"

definition Second :: Duration where
  "Second = 1000000000"

definition Minute :: Duration where
  "Minute = 60000000000"

text \<open>Reporter status: \<^verbatim>\<open>OK\<close>, \<^verbatim>\<open>DISCONNECTED\<close>, \<^verbatim>\<open>CLOSING\<close>.\<close>

datatype Status = OK | DISCONNECTED | CLOSING

text \<open>Run-time panics of the Go code that the model keeps as values.\<close>

datatype panic = IndexOutOfRange | SendOnClosedChannel | CloseOfClosedChannel | NilDereference

record settings =
  maxEventBytes :: int
  grpcReporterFlushTimeout :: Duration
  agentMetricsInterval :: Duration
  agentMetricsTickInterval :: Duration
  retryAmplifier :: int
  initialRetryInterval :: Duration
  maxRetryInterval :: Duration
  maxMetricsRetries :: int
  maxConnRedirects :: int
  maxConnRetries :: int
  maxStatusChanCap :: int
  loadStatusMsgsShortBlock :: Duration
  metricsConnKeepAliveInterval :: Duration
  maxMetricsMessagesOnePost :: int
  agentSettingsInterval :: Duration
  agentCheckSettingsTTLInterval :: Duration

text \<open>
  \<^verbatim>\<open>newDefaultSettings\<close>, with the package constants written in:
  \<^verbatim>\<open>maxConnRetries = int(^uint(0) >> 1)\<close> is the largest \<^verbatim>\<open>int\<close>.
\<close>

definition newDefaultSettings :: settings where
  "newDefaultSettings =
     \<lparr> maxEventBytes = 64 * 1024 * 1024,
       grpcReporterFlushTimeout = 100 * Millisecond,
       agentMetricsInterval = Minute,
       agentMetricsTickInterval = Millisecond * 500,
       retryAmplifier = 2,
       initialRetryInterval = Millisecond * 500,
       maxRetryInterval = Minute,
       maxMetricsRetries = 20,
       maxConnRedirects = 20,
       maxConnRetries = 2 ^ 63 - 1,
       maxStatusChanCap = 200,
       loadStatusMsgsShortBlock = Millisecond * 5,
       metricsConnKeepAliveInterval = Second * 20,
       maxMetricsMessagesOnePost = 100,
       agentSettingsInterval = Second * 20,
       agentCheckSettingsTTLInterval = Second * 10 \<rparr>"

section \<open>The event pipeline: \<^verbatim>\<open>reportEvents\<close>\<close>

text \<open>
  The local variables of \<^verbatim>\<open>reportEvents\<close>: the batch, the running byte total and the
  in-flight flag. \<open>batches\<close> is the sequence of values sent so far on the channel
  \<^verbatim>\<open>batches\<close> that feeds \<^verbatim>\<open>postEvents\<close>, and \<open>batchesClosed\<close> tells whether that
  channel has been closed. The running total is a sum of slice lengths that the code
  never decreases except to zero, so it is a natural number.
\<close>

record eventLoop =
  batch :: "bytes list"
  eventBytes :: nat
  logIsRunning :: bool
  batches :: "bytes list list"
  batchesClosed :: bool

definition newEventLoop :: eventLoop where
  "newEventLoop =
     \<lparr> batch = [], eventBytes = 0, logIsRunning = False, batches = [], batchesClosed = False \<rparr>"

text \<open>
  The closure \<^verbatim>\<open>flushBatch\<close>. A send on a closed channel panics.
\<close>

definition flushBatch :: "eventLoop \<Rightarrow> panic + eventLoop" where
  "flushBatch l =
     (if \<not> logIsRunning l \<and> length (batch l) > 0 then
        (if batchesClosed l then Inl SendOnClosedChannel
         else Inr (l\<lparr> logIsRunning := True, batches := batches l @ [batch l],
                      batch := [], eventBytes := 0 \<rparr>))
      else Inr l)"

text \<open>
  The eviction loop
  \<^verbatim>\<open>for dropped := 0; dropped < len(evbuf); { oldest, batch = batch[0], batch[1:]; dropped += len(oldest) }\<close>
  with \<open>n = len(evbuf)\<close>. Reading \<^verbatim>\<open>batch[0]\<close> of an empty batch panics.
\<close>

fun dropOldest :: "nat \<Rightarrow> nat \<Rightarrow> bytes list \<Rightarrow> panic + bytes list" where
  "dropOldest dropped n [] = (if dropped < n then Inl IndexOutOfRange else Inr [])"
| "dropOldest dropped n (oldest # rest) =
     (if dropped < n then dropOldest (dropped + length oldest) n rest
      else Inr (oldest # rest))"

text \<open>The four cases of the \<^verbatim>\<open>select\<close> statement; one is taken per loop iteration.\<close>

datatype selectCase = RecvEvent bytes | RecvResult | FlushTimeout | RecvExit

text \<open>
  One iteration of the \<^verbatim>\<open>for { select { ... } }\<close> loop. The \<^verbatim>\<open>break\<close> statements leave
  the \<^verbatim>\<open>select\<close> only, so the loop goes on with the state as it is.
\<close>

fun reportEvents_step :: "settings \<Rightarrow> eventLoop \<Rightarrow> selectCase \<Rightarrow> panic + eventLoop" where
  "reportEvents_step s l (RecvEvent evbuf) =
     (if int (eventBytes l + length evbuf) > maxEventBytes s then
        (if int (length evbuf) \<ge> maxEventBytes s then Inr l
         else (case dropOldest 0 (length evbuf) (batch l) of
                 Inl p \<Rightarrow> Inl p
               | Inr b \<Rightarrow> Inr (l\<lparr> batch := b @ [evbuf],
                                  eventBytes := eventBytes l + length evbuf \<rparr>)))
      else Inr (l\<lparr> batch := batch l @ [evbuf],
                   eventBytes := eventBytes l + length evbuf \<rparr>))"
| "reportEvents_step s l RecvResult = flushBatch (l\<lparr> logIsRunning := False \<rparr>)"
| "reportEvents_step s l FlushTimeout = flushBatch l"
| "reportEvents_step s l RecvExit =
     (if batchesClosed l then Inl CloseOfClosedChannel
      else Inr (l\<lparr> batchesClosed := True \<rparr>))"

text \<open>The loop over a finite schedule of \<^verbatim>\<open>select\<close> outcomes; a panic ends it.\<close>

fun reportEvents :: "settings \<Rightarrow> eventLoop \<Rightarrow> selectCase list \<Rightarrow> panic + eventLoop" where
  "reportEvents s l [] = Inr l"
| "reportEvents s l (c # cs) =
     (case reportEvents_step s l c of
        Inl p \<Rightarrow> Inl p
      | Inr l' \<Rightarrow> reportEvents s l' cs)"

text \<open>An event buffer of \<open>n\<close> bytes.\<close>

definition buffer :: "nat \<Rightarrow> bytes" where
  "buffer n = replicate n 0"

text \<open>The number of bytes a batch holds.\<close>

definition batchBytes :: "bytes list \<Rightarrow> nat" where
  "batchBytes b = sum_list (map length b)"

section \<open>Senders and the metrics connection\<close>

record Sender =
  messages :: "bytes list"
  nextTime :: Time
  retryActive :: bool
  nextRetryDelay :: Duration
  retryTime :: Time
  retries :: int

record gRPC =
  client :: "client option"
  status :: Status
  retries :: int
  nextRetryTime :: Time
  redirects :: int
  nextKeepAliveTime :: Time
  currTime :: Time

text \<open>
  \<^verbatim>\<open>(s *Sender) setRetryDelay(now, retryAmplifier, maxMetricsRetries) bool\<close>: the result
  and the sender as the call leaves it. The cap is the literal \<^verbatim>\<open>time.Minute\<close>.
\<close>

definition setRetryDelay :: "Time \<Rightarrow> int \<Rightarrow> int \<Rightarrow> Sender \<Rightarrow> bool \<times> Sender" where
  "setRetryDelay now amplifier maxRetries sn =
     (if Sender.retries sn \<ge> maxRetries then (False, sn\<lparr> retryActive := False \<rparr>)
      else
        (let d = wrap64 (nextRetryDelay sn * amplifier)
         in (True, sn\<lparr> retryTime := now + nextRetryDelay sn,
                        Sender.retries := wrap64 (Sender.retries sn + 1),
                        retryActive := True,
                        nextRetryDelay := (if d > Minute then Minute else d) \<rparr>)))"

text \<open>
  Consecutive calls of \<^verbatim>\<open>setRetryDelay\<close> on a sender, one for each tick time of the
  list, as consecutive \<^verbatim>\<open>TRY_LATER\<close> or \<^verbatim>\<open>LIMIT_EXCEEDED\<close> answers make them.
\<close>

fun setRetryDelays :: "Time list \<Rightarrow> int \<Rightarrow> int \<Rightarrow> Sender \<Rightarrow> Sender" where
  "setRetryDelays [] amplifier maxRetries sn = sn"
| "setRetryDelays (now # nows) amplifier maxRetries sn =
     setRetryDelays nows amplifier maxRetries (snd (setRetryDelay now amplifier maxRetries sn))"

text \<open>
  \<^verbatim>\<open>time.Time.Round\<close>: the nearest multiple of \<open>d\<close> since the zero time, halfway values
  rounded up; the time itself when \<open>d \<le> 0\<close>.
\<close>

definition Round :: "Time \<Rightarrow> Duration \<Rightarrow> Time" where
  "Round t d =
     (if d \<le> 0 then t
      else (let r = t mod d in if r + r < d then t - r else t + (d - r)))"

definition getNextTime :: "Time \<Rightarrow> Duration \<Rightarrow> Time" where
  "getNextTime now interval =
     (let t = Round now interval in if t < now then t + interval else t)"

text \<open>
  \<^verbatim>\<open>(g *gRPC) reconnect(addr, certPath, s)\<close>. \<open>dialGRPC\<close> stands for the function of that
  name, which reads the certificate file and dials: \<open>None\<close> is a dial error, \<open>Some c\<close>
  the client made from the new connection.
\<close>

definition reconnect ::
  "(string \<Rightarrow> string \<Rightarrow> client option) \<Rightarrow> string \<Rightarrow> string \<Rightarrow> settings \<Rightarrow> gRPC \<Rightarrow> gRPC" where
  "reconnect dialGRPC addr cert s g =
     (if gRPC.status g = OK \<or> gRPC.status g = CLOSING then g
      else if gRPC.retries g > maxConnRetries s then g\<lparr> gRPC.status := CLOSING \<rparr>
      else if nextRetryTime g > currTime g then g
      else
        (case dialGRPC cert addr of
           None \<Rightarrow>
             (let nextInterval = wrap64 (Second * wrap64 (wrap64 (gRPC.retries g + 1) * retryAmplifier s));
                  nextInterval' = (if nextInterval > maxRetryInterval s then maxRetryInterval s
                                   else nextInterval)
              in g\<lparr> nextRetryTime := currTime g + nextInterval',
                     gRPC.retries := wrap64 (gRPC.retries g + 1) \<rparr>)
         | Some c \<Rightarrow>
             g\<lparr> gRPC.client := Some c,
                 gRPC.retries := 0,
                 nextRetryTime := 0,
                 gRPC.status := OK,
                 nextKeepAliveTime := getNextTime (currTime g) (metricsConnKeepAliveInterval s) \<rparr>))"

section \<open>The gRPC reporter\<close>

text \<open>
  The fields of \<^verbatim>\<open>grpcReporter\<close> that the modelled methods touch. The field \<^verbatim>\<open>s\<close> of the
  source is \<open>r_s\<close> here. The channels \<^verbatim>\<open>ch\<close> and \<^verbatim>\<open>sMsgs\<close> are the sequences of
  buffers they hold. \<open>latestSettings\<close> is the package variable of that name, which
  \<^verbatim>\<open>storeSettings\<close> writes.
\<close>

type_synonym OboeSetting = bytes

record grpcReporter =
  client :: "client option"
  serverAddr :: string
  certPath :: string
  apiKey :: string
  r_s :: settings
  metricsConn :: gRPC
  metrics :: Sender
  status :: Sender
  settings :: Sender
  ch :: "bytes list"
  sMsgs :: "bytes list"
  latestSettings :: "OboeSetting list"

text \<open>
  The collector's answers. A call returns \<open>None\<close> on a transport error and the result
  message otherwise.
\<close>

datatype ResultCode =
    ResultCode_OK
  | ResultCode_TRY_LATER
  | ResultCode_LIMIT_EXCEEDED
  | ResultCode_INVALID_API_KEY
  | ResultCode_REDIRECT

datatype MessageResult = MessageResult (GetResult: ResultCode) (GetArg: string)

datatype SettingsResult =
  SettingsResult (GetSettingsResult: ResultCode) (GetSettingsArg: string) (Settings: "OboeSetting list")

text \<open>\<^verbatim>\<open>strings.HasPrefix\<close> and \<^verbatim>\<open>strings.Contains\<close>.\<close>

fun HasPrefix :: "string \<Rightarrow> string \<Rightarrow> bool" where
  "HasPrefix s [] = True"
| "HasPrefix [] (c # cs) = False"
| "HasPrefix (x # xs) (c # cs) = (x = c \<and> HasPrefix xs cs)"

fun Contains :: "string \<Rightarrow> string \<Rightarrow> bool" where
  "Contains [] substr = (substr = [])"
| "Contains (x # xs) substr = (HasPrefix (x # xs) substr \<or> Contains xs substr)"

definition setServerAddr :: "string \<Rightarrow> grpcReporter \<Rightarrow> bool \<times> grpcReporter" where
  "setServerAddr host r =
     (if Contains host '':'' then (False, r)
      else (True, r\<lparr> serverAddr := host \<rparr>))"

definition processRedirect :: "string \<Rightarrow> grpcReporter \<Rightarrow> grpcReporter" where
  "processRedirect host r =
     (if redirects (metricsConn r) \<ge> maxConnRedirects (r_s r) then
        r\<lparr> metricsConn := (metricsConn r)\<lparr> gRPC.status := CLOSING \<rparr> \<rparr>
      else
        (let r1 = r\<lparr> metricsConn := (metricsConn r)\<lparr> gRPC.status := DISCONNECTED \<rparr> \<rparr>
         in (case setServerAddr host r1 of
               (True, r2) \<Rightarrow>
                 r2\<lparr> metrics := (metrics r2)\<lparr> retryActive := False \<rparr>,
                      metricsConn := (metricsConn r2)
                        \<lparr> redirects := wrap64 (redirects (metricsConn r2) + 1),
                          gRPC.retries := 0,
                          nextRetryTime := 0 \<rparr> \<rparr>
             | (False, r2) \<Rightarrow>
                 r2\<lparr> metricsConn := (metricsConn r2)\<lparr> gRPC.status := CLOSING \<rparr> \<rparr>)))"

text \<open>
  The first block of \<^verbatim>\<open>sendMetrics\<close>: when the metrics deadline has passed, flush the
  aggregator into the queue. \<open>flushed\<close> is what \<^verbatim>\<open>mAgg.FlushBSON\<close> returns, \<open>None\<close>
  for an error.
\<close>

definition populateMetrics :: "bytes option \<Rightarrow> grpcReporter \<Rightarrow> grpcReporter" where
  "populateMetrics flushed r =
     (if nextTime (metrics r) < currTime (metricsConn r) then
        (let m = (metrics r)\<lparr> nextTime := getNextTime (currTime (metricsConn r))
                                             (agentMetricsInterval (r_s r)) \<rparr>
         in (case flushed of
               None \<Rightarrow> r\<lparr> metrics := m \<rparr>
             | Some message \<Rightarrow>
                 (let msgs = messages m @ [message]
                  in r\<lparr> metrics := m\<lparr> messages :=
                          (if int (length msgs) > maxMetricsMessagesOnePost (r_s r)
                           then tl msgs else msgs) \<rparr> \<rparr>)))
      else r)"

text \<open>
  \<^verbatim>\<open>sendMetrics\<close>. \<open>post\<close> is what \<^verbatim>\<open>PostMetrics\<close> returns when it is called.
\<close>

definition sendMetrics :: "bytes option \<Rightarrow> MessageResult option \<Rightarrow> grpcReporter \<Rightarrow> grpcReporter" where
  "sendMetrics flushed post r0 =
     (let r = populateMetrics flushed r0
      in if retryActive (metrics r) \<and> retryTime (metrics r) > currTime (metricsConn r) then r
         else if gRPC.status (metricsConn r) \<noteq> OK \<or> length (messages (metrics r)) = 0 then r
         else
           (case post of
              None \<Rightarrow> r\<lparr> metricsConn := (metricsConn r)\<lparr> gRPC.status := DISCONNECTED \<rparr> \<rparr>
            | Some mres \<Rightarrow>
                (let r1 = r\<lparr> metricsConn := (metricsConn r)
                             \<lparr> nextKeepAliveTime :=
                                 getNextTime (currTime (metricsConn r))
                                   (metricsConnKeepAliveInterval (r_s r)) \<rparr> \<rparr>
                 in (case GetResult mres of
                       ResultCode_OK \<Rightarrow>
                         r1\<lparr> metrics := (metrics r1)
                                \<lparr> messages := [], Sender.retries := 0, retryActive := False \<rparr>,
                              metricsConn := (metricsConn r1)\<lparr> redirects := 0 \<rparr> \<rparr>
                     | ResultCode_TRY_LATER \<Rightarrow>
                         (case setRetryDelay (currTime (metricsConn r1)) (retryAmplifier (r_s r1))
                                 (maxMetricsRetries (r_s r1)) (metrics r1) of
                            (True, m) \<Rightarrow> r1\<lparr> metrics := m\<lparr> messages := tl (messages m) \<rparr> \<rparr>
                          | (False, m) \<Rightarrow> r1\<lparr> metrics := m \<rparr>)
                     | ResultCode_LIMIT_EXCEEDED \<Rightarrow>
                         (case setRetryDelay (currTime (metricsConn r1)) (retryAmplifier (r_s r1))
                                 (maxMetricsRetries (r_s r1)) (metrics r1) of
                            (True, m) \<Rightarrow> r1\<lparr> metrics := m\<lparr> messages := tl (messages m) \<rparr> \<rparr>
                          | (False, m) \<Rightarrow> r1\<lparr> metrics := m \<rparr>)
                     | ResultCode_INVALID_API_KEY \<Rightarrow>
                         r1\<lparr> metricsConn := (metricsConn r1)\<lparr> gRPC.status := CLOSING \<rparr>,
                              metrics := (metrics r1)\<lparr> messages := [] \<rparr> \<rparr>
                     | ResultCode_REDIRECT \<Rightarrow> processRedirect (GetArg mres) r1))))"

text \<open>
  \<^verbatim>\<open>loadStatusMsgs\<close> drains the channel \<^verbatim>\<open>sMsgs\<close> into the status sender's queue.
\<close>

definition loadStatusMsgs :: "grpcReporter \<Rightarrow> bool \<times> grpcReporter" where
  "loadStatusMsgs r =
     (let r' = r\<lparr> grpcReporter.status := (grpcReporter.status r)
                     \<lparr> messages := messages (grpcReporter.status r) @ sMsgs r \<rparr>,
                   sMsgs := [] \<rparr>
      in (length (messages (grpcReporter.status r')) > 0, r'))"

text \<open>
  \<^verbatim>\<open>sendStatus\<close>. \<open>post\<close> is what \<^verbatim>\<open>PostStatus\<close> returns when it is called.
\<close>

definition sendStatus :: "MessageResult option \<Rightarrow> grpcReporter \<Rightarrow> grpcReporter" where
  "sendStatus post r0 =
     (if gRPC.status (metricsConn r0) \<noteq> OK then r0
      else if retryActive (grpcReporter.status r0)
              \<and> retryTime (grpcReporter.status r0) > currTime (metricsConn r0) then r0
      else
        (case (if length (messages (grpcReporter.status r0)) > 0 then (True, r0)
               else loadStatusMsgs r0) of
           (False, r) \<Rightarrow> r
         | (True, r) \<Rightarrow>
             (case post of
                None \<Rightarrow> r\<lparr> metricsConn := (metricsConn r)\<lparr> gRPC.status := DISCONNECTED \<rparr> \<rparr>
              | Some mres \<Rightarrow>
                  (let r1 = r\<lparr> metricsConn := (metricsConn r)
                               \<lparr> nextKeepAliveTime :=
                                   getNextTime (currTime (metricsConn r))
                                     (metricsConnKeepAliveInterval (r_s r)) \<rparr> \<rparr>
                   in (case GetResult mres of
                         ResultCode_OK \<Rightarrow>
                           r1\<lparr> grpcReporter.status := (grpcReporter.status r1)
                                  \<lparr> messages := [], retryActive := False \<rparr>,
                                metricsConn := (metricsConn r1)\<lparr> redirects := 0 \<rparr> \<rparr>
                       | ResultCode_TRY_LATER \<Rightarrow>
                           (case setRetryDelay (currTime (metricsConn r1)) (retryAmplifier (r_s r1))
                                   (maxMetricsRetries (r_s r1)) (grpcReporter.status r1) of
                              (True, m) \<Rightarrow> r1\<lparr> grpcReporter.status := m\<lparr> messages := [] \<rparr> \<rparr>
                            | (False, m) \<Rightarrow> r1\<lparr> grpcReporter.status := m \<rparr>)
                       | ResultCode_LIMIT_EXCEEDED \<Rightarrow>
                           (case setRetryDelay (currTime (metricsConn r1)) (retryAmplifier (r_s r1))
                                   (maxMetricsRetries (r_s r1)) (grpcReporter.status r1) of
                              (True, m) \<Rightarrow> r1\<lparr> grpcReporter.status := m\<lparr> messages := [] \<rparr> \<rparr>
                            | (False, m) \<Rightarrow> r1\<lparr> grpcReporter.status := m \<rparr>)
                       | ResultCode_INVALID_API_KEY \<Rightarrow>
                           r1\<lparr> metricsConn := (metricsConn r1)\<lparr> gRPC.status := CLOSING \<rparr>,
                                grpcReporter.status := (grpcReporter.status r1)\<lparr> messages := [] \<rparr> \<rparr>
                       | ResultCode_REDIRECT \<Rightarrow> processRedirect (GetArg mres) r1)))))"

text \<open>\<^verbatim>\<open>storeSettings\<close> on a result that is not nil.\<close>

definition storeSettings :: "SettingsResult \<Rightarrow> grpcReporter \<Rightarrow> grpcReporter" where
  "storeSettings sres r =
     (if length (Settings sres) > 0 then r\<lparr> latestSettings := Settings sres \<rparr> else r)"

text \<open>
  The condition under which \<^verbatim>\<open>getSettings\<close> contacts the collector at tick time \<open>tn\<close>:
  the refresh or keep-alive deadline has passed, or a scheduled retry has come.
\<close>

definition settingsDue :: "Time \<Rightarrow> grpcReporter \<Rightarrow> bool" where
  "settingsDue tn r \<longleftrightarrow>
     (\<not> retryActive (settings r)
        \<and> (nextTime (settings r) < tn \<or> nextKeepAliveTime (metricsConn r) < tn))
     \<or> (retryActive (settings r) \<and> retryTime (settings r) < tn)"

text \<open>
  \<^verbatim>\<open>getSettings\<close>. \<open>got\<close> is what \<^verbatim>\<open>GetSettings\<close> returns when it is called. In the
  \<^verbatim>\<open>TRY_LATER\<close> and \<^verbatim>\<open>LIMIT_EXCEEDED\<close> case the retry counter is set to zero before
  \<^verbatim>\<open>setRetryDelay\<close> is called, and the result of that call is discarded.
\<close>

definition getSettings :: "SettingsResult option \<Rightarrow> grpcReporter \<Rightarrow> grpcReporter" where
  "getSettings got r =
     (if gRPC.status (metricsConn r) \<noteq> OK then r
      else
        (let tn = currTime (metricsConn r)
         in if settingsDue tn r then
              (case got of
                 None \<Rightarrow> r\<lparr> metricsConn := (metricsConn r)\<lparr> gRPC.status := DISCONNECTED \<rparr> \<rparr>
               | Some sres \<Rightarrow>
                   (let r1 = r\<lparr> metricsConn := (metricsConn r)
                                \<lparr> nextKeepAliveTime :=
                                    getNextTime (currTime (metricsConn r))
                                      (metricsConnKeepAliveInterval (r_s r)) \<rparr> \<rparr>
                    in (case GetSettingsResult sres of
                          ResultCode_OK \<Rightarrow>
                            (let r2 = storeSettings sres r1
                             in r2\<lparr> settings := (settings r2)
                                      \<lparr> nextTime := getNextTime (currTime (metricsConn r2))
                                                       (agentSettingsInterval (r_s r2)),
                                        retryActive := False \<rparr>,
                                    metricsConn := (metricsConn r2)\<lparr> redirects := 0 \<rparr> \<rparr>)
                        | ResultCode_TRY_LATER \<Rightarrow>
                            r1\<lparr> settings :=
                                  snd (setRetryDelay (currTime (metricsConn r1)) (retryAmplifier (r_s r1))
                                         (maxMetricsRetries (r_s r1))
                                         ((settings r1)\<lparr> Sender.retries := 0 \<rparr>)) \<rparr>
                        | ResultCode_LIMIT_EXCEEDED \<Rightarrow>
                            r1\<lparr> settings :=
                                  snd (setRetryDelay (currTime (metricsConn r1)) (retryAmplifier (r_s r1))
                                         (maxMetricsRetries (r_s r1))
                                         ((settings r1)\<lparr> Sender.retries := 0 \<rparr>)) \<rparr>
                        | ResultCode_INVALID_API_KEY \<Rightarrow>
                            r1\<lparr> metricsConn := (metricsConn r1)\<lparr> gRPC.status := CLOSING \<rparr> \<rparr>
                        | ResultCode_REDIRECT \<Rightarrow> processRedirect (GetSettingsArg sres) r1)))
            else r))"

definition newSender :: "Duration \<Rightarrow> Sender" where
  "newSender initial =
     \<lparr> messages = [], nextTime = 0, retryActive = False, nextRetryDelay = initial,
       retryTime = 0, retries = 0 \<rparr>"

definition newGRPC :: "client option \<Rightarrow> gRPC" where
  "newGRPC c =
     \<lparr> gRPC.client = c, gRPC.status = OK, gRPC.retries = 0, nextRetryTime = 0, redirects = 0,
       nextKeepAliveTime = 0, currTime = 0 \<rparr>"

text \<open>
  \<^verbatim>\<open>newGRPCReporterWithConfig\<close>, without the two goroutines it starts.
\<close>

definition newGRPCReporterWithConfig ::
  "client option \<Rightarrow> settings \<Rightarrow> client option \<Rightarrow> string \<Rightarrow> string \<Rightarrow> string \<Rightarrow> grpcReporter" where
  "newGRPCReporterWithConfig eClient s mClient reporterAddr cert key =
     \<lparr> client = eClient, serverAddr = reporterAddr, certPath = cert, apiKey = key, r_s = s,
       metricsConn = newGRPC mClient,
       metrics = newSender (initialRetryInterval s),
       status = newSender (initialRetryInterval s),
       settings = newSender (initialRetryInterval s),
       ch = [], sMsgs = [], latestSettings = [] \<rparr>"

text \<open>
  The first statement of each iteration of \<^verbatim>\<open>periodic\<close> stores the tick time in
  \<^verbatim>\<open>metricsConn.currTime\<close>.
\<close>

definition tick :: "Time \<Rightarrow> grpcReporter \<Rightarrow> grpcReporter" where
  "tick t r = r\<lparr> metricsConn := (metricsConn r)\<lparr> currTime := t \<rparr> \<rparr>"

section \<open>Reporting an event\<close>

text \<open>
  The parts of \<^verbatim>\<open>oboeContext\<close> and \<^verbatim>\<open>event\<close> that \<^verbatim>\<open>reportEvent\<close> reads and writes:
  the task and operation identifiers of the metadata, and the bytes of the event's BSON
  buffer. An \<^verbatim>\<open>error\<close> is its message.
\<close>

type_synonym error = string

record oboeIDs =
  taskID :: bytes
  opID :: bytes

record oboeMetadata =
  ids :: oboeIDs

record oboeContext =
  metadata :: oboeMetadata

record event =
  metadata :: oboeMetadata
  bbuf :: bytes

text \<open>
  The methods of the payload encoder, which is declared outside these files, are
  parameters of the model.
\<close>

record encoder =
  AddInt64 :: "string \<Rightarrow> int \<Rightarrow> event \<Rightarrow> event"
  AddString :: "string \<Rightarrow> string \<Rightarrow> event \<Rightarrow> event"
  AddInt :: "string \<Rightarrow> int \<Rightarrow> event \<Rightarrow> event"
  bsonBufferFinish :: "bytes \<Rightarrow> bytes"

text \<open>\<^verbatim>\<open>setOpID\<close> copies the operation identifier into the metadata.\<close>

definition setOpID :: "bytes \<Rightarrow> oboeMetadata \<Rightarrow> oboeMetadata" where
  "setOpID op md = md\<lparr> ids := (ids md)\<lparr> opID := op \<rparr> \<rparr>"

text \<open>
  The three implementations of the interface \<^verbatim>\<open>reporter\<close>. A UDP reporter holds its
  connection (\<open>None\<close> is nil), which is the sequence of datagrams written to it.
\<close>

datatype reporter = NullReporter | UdpReporter "bytes list option" | GrpcReporter grpcReporter

fun IsOpen :: "reporter \<Rightarrow> bool" where
  "IsOpen NullReporter = False"
| "IsOpen (UdpReporter conn) = (conn \<noteq> None)"
| "IsOpen (GrpcReporter r) = (grpcReporter.client r \<noteq> None)"

text \<open>
  \<^verbatim>\<open>WritePacket\<close>. \<open>w\<close> is what \<^verbatim>\<open>conn.Write\<close> returns for the UDP reporter; the gRPC
  reporter sends the buffer on its channel \<^verbatim>\<open>ch\<close>.
\<close>

fun WritePacket ::
  "int \<times> error option \<Rightarrow> bytes \<Rightarrow> reporter \<Rightarrow> panic + ((int \<times> error option) \<times> reporter)" where
  "WritePacket w buf NullReporter = Inr ((int (length buf), None), NullReporter)"
| "WritePacket w buf (UdpReporter None) = Inl NilDereference"
| "WritePacket w buf (UdpReporter (Some conn)) =
     Inr (w, UdpReporter (Some (if snd w = None then conn @ [buf] else conn)))"
| "WritePacket w buf (GrpcReporter r) =
     Inr ((int (length buf), None), GrpcReporter (r\<lparr> ch := ch r @ [buf] \<rparr>))"

text \<open>
  \<^verbatim>\<open>reportEvent(r, ctx, e)\<close> of the traceview package. \<open>us\<close> is the clock reading in
  microseconds, \<open>host\<close> and \<open>pid\<close> the cached host name and process id. The result
  is the returned error with the reporter, the context and the event as the call leaves
  them.
\<close>

definition reportEvent ::
  "encoder \<Rightarrow> int \<Rightarrow> string \<Rightarrow> int \<Rightarrow> int \<times> error option \<Rightarrow> reporter
     \<Rightarrow> oboeContext option \<Rightarrow> event option
     \<Rightarrow> panic + (error option \<times> reporter \<times> oboeContext option \<times> event option)" where
  "reportEvent enc us host pid w r ctx e =
     (if \<not> IsOpen r then Inr (None, r, ctx, e)
      else
        (case (ctx, e) of
           (Some c, Some ev) \<Rightarrow>
             (if taskID (ids (oboeContext.metadata c)) \<noteq> taskID (ids (event.metadata ev)) then
                Inr (Some ''Invalid event, different task_id from context'', r, ctx, e)
              else if opID (ids (oboeContext.metadata c)) = opID (ids (event.metadata ev)) then
                Inr (Some ''Invalid event, same as context'', r, ctx, e)
              else
                (let ev1 = AddInt64 enc ''Timestamp_u'' us ev;
                     ev2 = AddString enc ''Hostname'' host ev1;
                     ev3 = AddInt enc ''PID'' pid ev2;
                     c' = c\<lparr> oboeContext.metadata :=
                              setOpID (opID (ids (event.metadata ev3))) (oboeContext.metadata c) \<rparr>;
                     ev4 = ev3\<lparr> bbuf := bsonBufferFinish enc (bbuf ev3) \<rparr>
                 in (case WritePacket w (bbuf ev4) r of
                       Inl p \<Rightarrow> Inl p
                     | Inr ((n, err), r') \<Rightarrow> Inr (err, r', Some c', Some ev4))))
         | _ \<Rightarrow> Inr (Some ''Invalid context, event'', r, ctx, e)))"

text \<open>
  \<^verbatim>\<open>prepareEvent(ctx, e)\<close> of the reporter package, which validates and finishes the event
  and leaves the sending to its caller.
\<close>

definition prepareEvent ::
  "encoder \<Rightarrow> int \<Rightarrow> string \<Rightarrow> int \<Rightarrow> oboeContext option \<Rightarrow> event option
     \<Rightarrow> error option \<times> oboeContext option \<times> event option" where
  "prepareEvent enc us host pid ctx e =
     (case (ctx, e) of
        (Some c, Some ev) \<Rightarrow>
          (if taskID (ids (oboeContext.metadata c)) \<noteq> taskID (ids (event.metadata ev)) then
             (Some ''invalid event, different task_id from context'', ctx, e)
           else if opID (ids (oboeContext.metadata c)) = opID (ids (event.metadata ev)) then
             (Some ''invalid event, same as context'', ctx, e)
           else
             (let ev1 = AddInt64 enc ''Timestamp_u'' us ev;
                  ev2 = AddString enc ''Hostname'' host ev1;
                  ev3 = AddInt enc ''PID'' pid ev2;
                  c' = c\<lparr> oboeContext.metadata :=
                           setOpID (opID (ids (event.metadata ev3))) (oboeContext.metadata c) \<rparr>;
                  ev4 = ev3\<lparr> bbuf := bsonBufferFinish enc (bbuf ev3) \<rparr>
              in (None, Some c', Some ev4)))
      | _ \<Rightarrow> (Some ''invalid context, event'', ctx, e))"

section \<open>Example states\<close>

text \<open>
  A reporter as \<^verbatim>\<open>newGRPCReporter\<close> builds it, with the default settings, and the same
  reporter with two metrics messages queued and one status message on \<^verbatim>\<open>sMsgs\<close>.
\<close>

definition exampleReporter :: grpcReporter where
  "exampleReporter =
     newGRPCReporterWithConfig (Some 1) newDefaultSettings (Some 2)
       ''collector.librato.com:443'' ''ca.crt'' ''key''"

definition exampleBacklog :: grpcReporter where
  "exampleBacklog =
     exampleReporter\<lparr> metrics := (metrics exampleReporter)\<lparr> messages := [buffer 1, buffer 2] \<rparr>,
                       sMsgs := [buffer 3] \<rparr>"

definition tryLater :: MessageResult where
  "tryLater = MessageResult ResultCode_TRY_LATER []"

definition resultOK :: MessageResult where
  "resultOK = MessageResult ResultCode_OK []"

definition settingsTryLater :: SettingsResult where
  "settingsTryLater = SettingsResult ResultCode_TRY_LATER [] []"

text \<open>
  The metrics sender after a \<^verbatim>\<open>TRY_LATER\<close> answer at tick time 0 followed by an
  \<^verbatim>\<open>OK\<close> answer at tick time one second.
\<close>

definition metricsTryLaterThenOK :: grpcReporter where
  "metricsTryLaterThenOK =
     sendMetrics None (Some resultOK)
       (tick Second (sendMetrics None (Some tryLater) exampleBacklog))"

text \<open>
  Two calls of \<^verbatim>\<open>setRetryDelay\<close> on a new sender, under settings whose maximum retry
  interval is one second.
\<close>

definition shortCapSettings :: settings where
  "shortCapSettings = newDefaultSettings\<lparr> maxRetryInterval := Second \<rparr>"

definition shortCapSenderOnce :: Sender where
  "shortCapSenderOnce =
     snd (setRetryDelay 0 (retryAmplifier shortCapSettings) (maxMetricsRetries shortCapSettings)
       (newSender (initialRetryInterval shortCapSettings)))"

definition shortCapSender :: Sender where
  "shortCapSender =
     snd (setRetryDelay Second (retryAmplifier shortCapSettings) (maxMetricsRetries shortCapSettings)
       shortCapSenderOnce)"

text \<open>
  The metrics sender of the example reporter after two consecutive \<^verbatim>\<open>TRY_LATER\<close>
  answers, at tick times 0 and one second.
\<close>

definition metricsTwoTryLater :: grpcReporter where
  "metricsTwoTryLater =
     sendMetrics None (Some tryLater)
       (tick Second (sendMetrics None (Some tryLater) exampleBacklog))"

text \<open>
  A reporter whose retry ceiling is 2, and the settings sender after four consecutive
  \<^verbatim>\<open>TRY_LATER\<close> answers, each at a tick after the retry time scheduled before it.
\<close>

definition lowCeilingReporter :: grpcReporter where
  "lowCeilingReporter =
     newGRPCReporterWithConfig (Some 1) (newDefaultSettings\<lparr> maxMetricsRetries := 2 \<rparr>) (Some 2)
       ''collector.librato.com:443'' ''ca.crt'' ''key''"

definition settingsFourTryLater :: grpcReporter where
  "settingsFourTryLater =
     getSettings (Some settingsTryLater) (tick (20 * Second)
       (getSettings (Some settingsTryLater) (tick (10 * Second)
          (getSettings (Some settingsTryLater) (tick (5 * Second)
             (getSettings (Some settingsTryLater) (tick Second lowCeilingReporter)))))))"

text \<open>
  The same reporter at tick time one second with the settings sender's retry counter
  at the ceiling.
\<close>

definition atCeiling :: grpcReporter where
  "atCeiling =
     (tick Second lowCeilingReporter)
       \<lparr> settings := (settings lowCeilingReporter)\<lparr> Sender.retries := 2 \<rparr> \<rparr>"

text \<open>
  A disconnected connection under a connection-retry ceiling of 2: two failed dials,
  each at a tick when the retry is due, and a third reconnect whose dial succeeds.
\<close>

definition retrySettings :: settings where
  "retrySettings = newDefaultSettings\<lparr> maxConnRetries := 2 \<rparr>"

definition dialFails :: "string \<Rightarrow> string \<Rightarrow> client option" where
  "dialFails cert addr = None"

definition dialSucceeds :: "string \<Rightarrow> string \<Rightarrow> client option" where
  "dialSucceeds cert addr = Some 7"

definition disconnected :: gRPC where
  "disconnected = (newGRPC (Some 2))\<lparr> gRPC.status := DISCONNECTED \<rparr>"

definition twoFailedDials :: gRPC where
  "twoFailedDials =
     reconnect dialFails ''collector'' ''ca.crt'' retrySettings
       ((reconnect dialFails ''collector'' ''ca.crt'' retrySettings disconnected)
          \<lparr> currTime := 2 * Second \<rparr>)"

definition thirdDial :: gRPC where
  "thirdDial =
     reconnect dialSucceeds ''collector'' ''ca.crt'' retrySettings
       (twoFailedDials\<lparr> currTime := 6 * Second \<rparr>)"

text \<open>
  A context and an event of another task, an event of the same task with the context's
  operation identifier, and an encoder that leaves the event as it is.
\<close>

definition exampleContext :: oboeContext where
  "exampleContext = \<lparr> oboeContext.metadata = \<lparr> ids = \<lparr> taskID = [1, 1], opID = [7] \<rparr> \<rparr> \<rparr>"

definition otherTaskEvent :: event where
  "otherTaskEvent = \<lparr> event.metadata = \<lparr> ids = \<lparr> taskID = [2, 2], opID = [8] \<rparr> \<rparr>, bbuf = [] \<rparr>"

definition sameOpEvent :: event where
  "sameOpEvent = \<lparr> event.metadata = \<lparr> ids = \<lparr> taskID = [1, 1], opID = [7] \<rparr> \<rparr>, bbuf = [] \<rparr>"

definition plainEncoder :: encoder where
  "plainEncoder =
     \<lparr> AddInt64 = (\<lambda>k v e. e), AddString = (\<lambda>k v e. e), AddInt = (\<lambda>k v e. e),
       bsonBufferFinish = (\<lambda>b. b) \<rparr>"

section \<open>Properties of the event pipeline\<close>

lemma reportEvents_append:
  "reportEvents s l (cs @ ds) =
     (case reportEvents s l cs of Inl p \<Rightarrow> Inl p | Inr l' \<Rightarrow> reportEvents s l' ds)"
  by (induction cs arbitrary: l) (auto split: sum.splits)

lemma oversize_step:
  "int (length evbuf) > maxEventBytes s \<Longrightarrow> reportEvents_step s l (RecvEvent evbuf) = Inr l"
  by simp

text \<open>
  Claim C1, at the scenario of the specification: buffers of 10, 20 and 5 bytes with a
  ceiling of 25. The first buffer is kept. For the second one the eviction loop has to
  drop at least 20 bytes, the batch holds 10, and the read of \<^verbatim>\<open>batch[0]\<close> on the emptied
  batch panics: the loop never reaches the retained batch [20, 5].
\<close>

theorem C1_scenario_panics:
  "reportEvents (newDefaultSettings\<lparr> maxEventBytes := 25 \<rparr>) newEventLoop
     [RecvEvent (buffer 10), RecvEvent (buffer 20), RecvEvent (buffer 5)]
   = Inl IndexOutOfRange"
  by (simp add: newEventLoop_def buffer_def)

text \<open>
  Claim C9: a submitted buffer longer than \<^verbatim>\<open>maxEventBytes\<close> is dropped outright. The
  iteration that receives it leaves the batch, the running total and the sequence of
  posted batches as they are, and a run of the loop is the run without that submission,
  so the buffer reaches no posted batch.
\<close>

theorem C9_oversize_dropped:
  assumes "int (length evbuf) > maxEventBytes s"
  shows "reportEvents_step s l (RecvEvent evbuf) = Inr l
       \<and> reportEvents s l0 (cs @ RecvEvent evbuf # ds) = reportEvents s l0 (cs @ ds)"
proof
  show "reportEvents_step s l (RecvEvent evbuf) = Inr l"
    using assms by (rule oversize_step)
next
  have "\<And>l'. reportEvents s l' (RecvEvent evbuf # ds) = reportEvents s l' ds"
    using assms by simp
  then show "reportEvents s l0 (cs @ RecvEvent evbuf # ds) = reportEvents s l0 (cs @ ds)"
    by (simp add: reportEvents_append split: sum.splits)
qed

theorem C9_oversize_dropped_witness:
  "int (length (buffer 30)) > maxEventBytes (newDefaultSettings\<lparr> maxEventBytes := 25 \<rparr>)
   \<and> reportEvents (newDefaultSettings\<lparr> maxEventBytes := 25 \<rparr>) newEventLoop
       ([RecvEvent (buffer 10)] @ RecvEvent (buffer 30) # [FlushTimeout])
     = reportEvents (newDefaultSettings\<lparr> maxEventBytes := 25 \<rparr>) newEventLoop
       ([RecvEvent (buffer 10)] @ [FlushTimeout])"
proof -
  have h: "int (length (buffer 30)) > maxEventBytes (newDefaultSettings\<lparr> maxEventBytes := 25 \<rparr>)"
    by (simp add: buffer_def)
  from C9_oversize_dropped [OF h, of newEventLoop newEventLoop "[RecvEvent (buffer 10)]" "[FlushTimeout]"]
  have "reportEvents (newDefaultSettings\<lparr> maxEventBytes := 25 \<rparr>) newEventLoop
       ([RecvEvent (buffer 10)] @ RecvEvent (buffer 30) # [FlushTimeout])
     = reportEvents (newDefaultSettings\<lparr> maxEventBytes := 25 \<rparr>) newEventLoop
       ([RecvEvent (buffer 10)] @ [FlushTimeout])"
    by (rule conjunct2)
  with h show ?thesis by (rule conjI)
qed

text \<open>
  Apart from the panic, the loop keeps the batch within the ceiling: in every state a
  run reaches from the start, the bytes of the batch are at most the running total, and
  at most \<^verbatim>\<open>maxEventBytes\<close> unless the batch is empty.
\<close>

lemma dropOldest_bytes:
  "dropOldest dropped n b = Inr b' \<Longrightarrow> batchBytes b' + max n dropped \<le> batchBytes b + dropped"
proof (induction dropped n b rule: dropOldest.induct)
  case (1 dropped n)
  then show ?case by (simp add: batchBytes_def split: if_splits)
next
  case (2 dropped n oldest rest)
  show ?case
  proof (cases "dropped < n")
    case True
    with 2 have "batchBytes b' + max n (dropped + length oldest)
                   \<le> batchBytes rest + (dropped + length oldest)"
      by simp
    then show ?thesis by (simp add: batchBytes_def)
  next
    case False
    with 2 show ?thesis by (simp add: batchBytes_def)
  qed
qed

lemma reportEvents_step_within_ceiling:
  assumes inv: "batchBytes (batch l) \<le> eventBytes l"
      "batch l = [] \<or> int (batchBytes (batch l)) \<le> maxEventBytes s"
    and step: "reportEvents_step s l c = Inr l'"
  shows "batchBytes (batch l') \<le> eventBytes l'
       \<and> (batch l' = [] \<or> int (batchBytes (batch l')) \<le> maxEventBytes s)"
proof (cases c)
  case (RecvEvent evbuf)
  show ?thesis
  proof (cases "int (eventBytes l + length evbuf) > maxEventBytes s")
    case False
    with RecvEvent step have "l' = l\<lparr> batch := batch l @ [evbuf],
                                       eventBytes := eventBytes l + length evbuf \<rparr>"
      by simp
    with False inv(1) show ?thesis by (simp add: batchBytes_def)
  next
    case over: True
    show ?thesis
    proof (cases "int (length evbuf) \<ge> maxEventBytes s")
      case True
      with over RecvEvent step inv show ?thesis by simp
    next
      case False
      with over RecvEvent step obtain b where
        b: "dropOldest 0 (length evbuf) (batch l) = Inr b"
        and l': "l' = l\<lparr> batch := b @ [evbuf], eventBytes := eventBytes l + length evbuf \<rparr>"
        by (auto split: sum.splits)
      from dropOldest_bytes [OF b] have le: "batchBytes b + length evbuf \<le> batchBytes (batch l)"
        by simp
      have "int (batchBytes (batch l)) \<le> maxEventBytes s"
        using inv(2) False by (auto simp add: batchBytes_def)
      with le inv(1) l' show ?thesis by (simp add: batchBytes_def)
    qed
  qed
next
  case RecvResult
  with step inv show ?thesis
    by (auto simp add: flushBatch_def batchBytes_def split: if_splits)
next
  case FlushTimeout
  with step inv show ?thesis
    by (auto simp add: flushBatch_def batchBytes_def split: if_splits)
next
  case RecvExit
  with step inv show ?thesis
    by (auto split: if_splits)
qed

lemma reportEvents_within_ceiling:
  assumes "batchBytes (batch l) \<le> eventBytes l"
    and "batch l = [] \<or> int (batchBytes (batch l)) \<le> maxEventBytes s"
    and "reportEvents s l cs = Inr l'"
  shows "batchBytes (batch l') \<le> eventBytes l'
       \<and> (batch l' = [] \<or> int (batchBytes (batch l')) \<le> maxEventBytes s)"
  using assms
proof (induction cs arbitrary: l)
  case Nil
  then show ?case by simp
next
  case (Cons c cs)
  from Cons.prems(3) obtain l1 where
    s1: "reportEvents_step s l c = Inr l1" and rest: "reportEvents s l1 cs = Inr l'"
    by (auto split: sum.splits)
  from reportEvents_step_within_ceiling [OF Cons.prems(1,2) s1]
  have "batchBytes (batch l1) \<le> eventBytes l1"
    and "batch l1 = [] \<or> int (batchBytes (batch l1)) \<le> maxEventBytes s"
    by blast+
  then show ?case using rest by (rule Cons.IH)
qed

lemma reportEvents_from_start_within_ceiling:
  assumes "reportEvents s newEventLoop cs = Inr l'"
  shows "batchBytes (batch l') \<le> eventBytes l'
       \<and> (batch l' = [] \<or> int (batchBytes (batch l')) \<le> maxEventBytes s)"
proof -
  have "batchBytes (batch newEventLoop) \<le> eventBytes newEventLoop"
    by (simp add: newEventLoop_def batchBytes_def)
  moreover have "batch newEventLoop = []
      \<or> int (batchBytes (batch newEventLoop)) \<le> maxEventBytes s"
    by (simp add: newEventLoop_def)
  ultimately show ?thesis
    using assms by (rule reportEvents_within_ceiling)
qed

section \<open>Helper lemmas\<close>

lemma wrap64_id: "fits64 x \<Longrightarrow> wrap64 x = x"
  by (simp add: wrap64_def fits64_def signed_take_bit_int_eq_self_iff)

lemma Contains_colon: "Contains host '':'' \<longleftrightarrow> CHR '':'' \<in> set host"
  by (induction host) (auto elim: HasPrefix.elims)

lemma setServerAddr_colon:
  "CHR '':'' \<in> set host \<Longrightarrow> setServerAddr host r = (False, r)"
  by (simp add: setServerAddr_def Contains_colon)

lemma setServerAddr_bare:
  "CHR '':'' \<notin> set host \<Longrightarrow> setServerAddr host r = (True, r\<lparr> serverAddr := host \<rparr>)"
  by (simp add: setServerAddr_def Contains_colon)

lemma setRetryDelay_messages: "messages (snd (setRetryDelay now a mx sn)) = messages sn"
  by (simp add: setRetryDelay_def Let_def)

lemma setRetryDelay_upd_messages:
  "setRetryDelay now a mx (sn\<lparr> messages := ms \<rparr>) =
     (fst (setRetryDelay now a mx sn), (snd (setRetryDelay now a mx sn))\<lparr> messages := ms \<rparr>)"
  by (simp add: setRetryDelay_def Let_def)

lemma populateMetrics_frame:
  "nextRetryDelay (metrics (populateMetrics flushed r)) = nextRetryDelay (metrics r)"
  by (simp add: populateMetrics_def Let_def split: option.splits)

section \<open>The redirect protocol\<close>

text \<open>
  Claim C5: \<^verbatim>\<open>processRedirect(newHost)\<close>. With the redirect counter at the ceiling
  \<^verbatim>\<open>maxConnRedirects\<close> or above, the connection is forced to \<^verbatim>\<open>CLOSING\<close>. Below the
  ceiling, a host with the port separator is rejected and the connection is forced to
  \<^verbatim>\<open>CLOSING\<close>; a host without it becomes the server address, the status is
  \<^verbatim>\<open>DISCONNECTED\<close>, the metrics sender's retry-active flag is cleared, the redirect
  counter grows by one, and the connection's retry counter and retry time are reset.
  The counters are taken to hold 64-bit values.
\<close>

theorem C5_processRedirect:
  assumes "fits64 (redirects (metricsConn r))" and "fits64 (maxConnRedirects (r_s r))"
  shows "processRedirect host r =
     (if redirects (metricsConn r) \<ge> maxConnRedirects (r_s r) then
        r\<lparr> metricsConn := (metricsConn r)\<lparr> gRPC.status := CLOSING \<rparr> \<rparr>
      else if CHR '':'' \<in> set host then
        r\<lparr> metricsConn := (metricsConn r)\<lparr> gRPC.status := CLOSING \<rparr> \<rparr>
      else
        r\<lparr> serverAddr := host,
            metrics := (metrics r)\<lparr> retryActive := False \<rparr>,
            metricsConn := (metricsConn r)
              \<lparr> gRPC.status := DISCONNECTED,
                redirects := redirects (metricsConn r) + 1,
                gRPC.retries := 0,
                nextRetryTime := 0 \<rparr> \<rparr>)"
proof (cases "redirects (metricsConn r) \<ge> maxConnRedirects (r_s r)")
  case True
  then show ?thesis by (simp add: processRedirect_def)
next
  case below: False
  show ?thesis
  proof (cases "CHR '':'' \<in> set host")
    case True
    with below show ?thesis
      by (simp add: processRedirect_def setServerAddr_colon)
  next
    case False
    have "fits64 (redirects (metricsConn r) + 1)"
      using assms below by (simp add: fits64_def)
    then have "wrap64 (redirects (metricsConn r) + 1) = redirects (metricsConn r) + 1"
      by (rule wrap64_id)
    with below False show ?thesis
      by (simp add: processRedirect_def setServerAddr_bare)
  qed
qed

theorem C5_processRedirect_witness:
  "fits64 (redirects (metricsConn exampleReporter))
   \<and> fits64 (maxConnRedirects (r_s exampleReporter))
   \<and> serverAddr (processRedirect ''new-collector.example.com'' exampleReporter)
       = ''new-collector.example.com''
   \<and> gRPC.status (metricsConn (processRedirect ''new-collector.example.com'' exampleReporter))
       = DISCONNECTED
   \<and> redirects (metricsConn (processRedirect ''new-collector.example.com'' exampleReporter)) = 1"
proof -
  have h1: "fits64 (redirects (metricsConn exampleReporter))"
    by (simp add: exampleReporter_def newGRPCReporterWithConfig_def newGRPC_def fits64_def)
  have h2: "fits64 (maxConnRedirects (r_s exampleReporter))"
    by (simp add: exampleReporter_def newGRPCReporterWithConfig_def newDefaultSettings_def
        fits64_def)
  have below: "\<not> redirects (metricsConn exampleReporter) \<ge> maxConnRedirects (r_s exampleReporter)"
    by (simp add: exampleReporter_def newGRPCReporterWithConfig_def newGRPC_def
        newDefaultSettings_def)
  have zero: "redirects (metricsConn exampleReporter) = 0"
    by (simp add: exampleReporter_def newGRPCReporterWithConfig_def newGRPC_def)
  have bare: "CHR '':'' \<notin> set ''new-collector.example.com''"
    by simp
  have "processRedirect ''new-collector.example.com'' exampleReporter =
      exampleReporter\<lparr> serverAddr := ''new-collector.example.com'',
        metrics := (metrics exampleReporter)\<lparr> retryActive := False \<rparr>,
        metricsConn := (metricsConn exampleReporter)
          \<lparr> gRPC.status := DISCONNECTED,
            redirects := redirects (metricsConn exampleReporter) + 1,
            gRPC.retries := 0,
            nextRetryTime := 0 \<rparr> \<rparr>"
    using C5_processRedirect [OF h1 h2, of "''new-collector.example.com''"] below bare
    by (simp only: if_False)
  then show ?thesis
    using h1 h2 zero by simp
qed

text \<open>
  Claim C10: a redirect host that contains the port separator leaves the server
  address and every other field as they are: \<^verbatim>\<open>setServerAddr\<close> returns false with the
  reporter unchanged, and \<^verbatim>\<open>processRedirect\<close> returns the reporter with the connection
  status \<^verbatim>\<open>CLOSING\<close> and nothing else changed.
\<close>

theorem C10_redirect_with_port:
  assumes "CHR '':'' \<in> set host"
  shows "setServerAddr host r = (False, r)
       \<and> processRedirect host r = r\<lparr> metricsConn := (metricsConn r)\<lparr> gRPC.status := CLOSING \<rparr> \<rparr>
       \<and> serverAddr (processRedirect host r) = serverAddr r
       \<and> retryActive (metrics (processRedirect host r)) = retryActive (metrics r)
       \<and> redirects (metricsConn (processRedirect host r)) = redirects (metricsConn r)
       \<and> gRPC.retries (metricsConn (processRedirect host r)) = gRPC.retries (metricsConn r)
       \<and> nextRetryTime (metricsConn (processRedirect host r)) = nextRetryTime (metricsConn r)
       \<and> gRPC.status (metricsConn (processRedirect host r)) = CLOSING"
  using assms by (simp add: processRedirect_def setServerAddr_colon)

theorem C10_redirect_with_port_witness:
  "CHR '':'' \<in> set ''other.example.com:443''
   \<and> serverAddr (processRedirect ''other.example.com:443'' exampleBacklog)
       = serverAddr exampleBacklog
   \<and> gRPC.status (metricsConn (processRedirect ''other.example.com:443'' exampleBacklog))
       = CLOSING"
proof -
  have h: "CHR '':'' \<in> set ''other.example.com:443''"
    by simp
  from C10_redirect_with_port [OF h, of exampleBacklog]
  have "serverAddr (processRedirect ''other.example.com:443'' exampleBacklog)
          = serverAddr exampleBacklog
      \<and> gRPC.status (metricsConn (processRedirect ''other.example.com:443'' exampleBacklog))
          = CLOSING"
    by blast
  with h show ?thesis by (rule conjI)
qed

section \<open>Responses to a post\<close>

lemma populateMetrics_metricsConn: "metricsConn (populateMetrics flushed r) = metricsConn r"
  by (simp add: populateMetrics_def Let_def split: option.splits)

lemma populateMetrics_r_s: "r_s (populateMetrics flushed r) = r_s r"
  by (simp add: populateMetrics_def Let_def split: option.splits)

lemma sendMetrics_try_later:
  assumes rc: "GetResult mres = ResultCode_TRY_LATER \<or> GetResult mres = ResultCode_LIMIT_EXCEEDED"
    and q: "q = populateMetrics flushed r"
    and st: "gRPC.status (metricsConn q) = OK"
    and ne: "messages (metrics q) \<noteq> []"
    and due: "\<not> (retryActive (metrics q) \<and> retryTime (metrics q) > currTime (metricsConn q))"
    and ok: "setRetryDelay (currTime (metricsConn q)) (retryAmplifier (r_s q))
               (maxMetricsRetries (r_s q)) (metrics q) = (True, m)"
  shows "metrics (sendMetrics flushed (Some mres) r) = m\<lparr> messages := tl (messages (metrics q)) \<rparr>"
proof -
  have "messages m = messages (metrics q)"
    using setRetryDelay_messages [of "currTime (metricsConn q)" "retryAmplifier (r_s q)"
               "maxMetricsRetries (r_s q)" "metrics q"] ok by simp
  then show ?thesis
    using rc st ne due ok unfolding q by (auto simp add: sendMetrics_def Let_def)
qed

lemma sendStatus_try_later:
  assumes rc: "GetResult mres = ResultCode_TRY_LATER \<or> GetResult mres = ResultCode_LIMIT_EXCEEDED"
    and st: "gRPC.status (metricsConn r) = OK"
    and ne: "messages (grpcReporter.status r) \<noteq> [] \<or> sMsgs r \<noteq> []"
    and due: "\<not> (retryActive (grpcReporter.status r)
                 \<and> retryTime (grpcReporter.status r) > currTime (metricsConn r))"
    and ok: "setRetryDelay (currTime (metricsConn r)) (retryAmplifier (r_s r))
               (maxMetricsRetries (r_s r)) (grpcReporter.status r) = (True, m)"
  shows "grpcReporter.status (sendStatus (Some mres) r) = m\<lparr> messages := [] \<rparr>"
proof (cases "messages (grpcReporter.status r) = []")
  case False
  then show ?thesis
    using rc st due ok by (auto simp add: sendStatus_def Let_def)
next
  case True
  with ne have "sMsgs r \<noteq> []" by simp
  with True show ?thesis
    using rc st due ok
    by (auto simp add: sendStatus_def loadStatusMsgs_def Let_def setRetryDelay_upd_messages)
qed

lemma sendMetrics_ok:
  assumes rc: "GetResult mres = ResultCode_OK"
    and q: "q = populateMetrics flushed r"
    and st: "gRPC.status (metricsConn q) = OK"
    and ne: "messages (metrics q) \<noteq> []"
    and due: "\<not> (retryActive (metrics q) \<and> retryTime (metrics q) > currTime (metricsConn q))"
  shows "metrics (sendMetrics flushed (Some mres) r)
           = (metrics q)\<lparr> messages := [], Sender.retries := 0, retryActive := False \<rparr>
       \<and> redirects (metricsConn (sendMetrics flushed (Some mres) r)) = 0"
  using rc st ne due unfolding q by (auto simp add: sendMetrics_def Let_def)

lemma sendStatus_ok:
  assumes rc: "GetResult mres = ResultCode_OK"
    and st: "gRPC.status (metricsConn r) = OK"
    and ne: "messages (grpcReporter.status r) \<noteq> [] \<or> sMsgs r \<noteq> []"
    and due: "\<not> (retryActive (grpcReporter.status r)
                 \<and> retryTime (grpcReporter.status r) > currTime (metricsConn r))"
  shows "grpcReporter.status (sendStatus (Some mres) r)
           = (grpcReporter.status r)\<lparr> messages := [], retryActive := False \<rparr>
       \<and> redirects (metricsConn (sendStatus (Some mres) r)) = 0"
proof (cases "messages (grpcReporter.status r) = []")
  case False
  then show ?thesis
    using rc st due by (auto simp add: sendStatus_def Let_def)
next
  case True
  with ne have "sMsgs r \<noteq> []" by simp
  with True show ?thesis
    using rc st due by (auto simp add: sendStatus_def loadStatusMsgs_def Let_def)
qed

lemma getSettings_ok:
  assumes rc: "GetSettingsResult sres = ResultCode_OK"
    and st: "gRPC.status (metricsConn r) = OK"
    and due: "settingsDue (currTime (metricsConn r)) r"
  shows "settings (getSettings (Some sres) r)
           = (settings r)\<lparr> nextTime := getNextTime (currTime (metricsConn r))
                                          (agentSettingsInterval (r_s r)),
                            retryActive := False \<rparr>
       \<and> redirects (metricsConn (getSettings (Some sres) r)) = 0"
  using assms by (auto simp add: getSettings_def Let_def storeSettings_def)

lemma getSettings_try_later:
  assumes rc: "GetSettingsResult sres = ResultCode_TRY_LATER
               \<or> GetSettingsResult sres = ResultCode_LIMIT_EXCEEDED"
    and st: "gRPC.status (metricsConn r) = OK"
    and due: "settingsDue (currTime (metricsConn r)) r"
    and pos: "0 < maxMetricsRetries (r_s r)"
  shows "retryActive (settings (getSettings (Some sres) r))
       \<and> Sender.retries (settings (getSettings (Some sres) r)) = 1
       \<and> retryTime (settings (getSettings (Some sres) r))
           = currTime (metricsConn r) + nextRetryDelay (settings r)"
  using assms
  by (auto simp add: getSettings_def Let_def setRetryDelay_def wrap64_def)

lemma exampleBacklog_populate: "populateMetrics None exampleBacklog = exampleBacklog"
  by (simp add: populateMetrics_def exampleBacklog_def exampleReporter_def
      newGRPCReporterWithConfig_def newGRPC_def newSender_def)

text \<open>
  Claim C7: on \<^verbatim>\<open>TRY_LATER\<close> or \<^verbatim>\<open>LIMIT_EXCEEDED\<close> the sender's \<^verbatim>\<open>setRetryDelay\<close> is
  called, and when it returns true the metrics sender is left as that call leaves it
  with its oldest message removed and the others in order, and the status sender is
  left as that call leaves it with an empty queue. \<open>q\<close> is the reporter when the
  metrics are posted, after the aggregator has been flushed into the queue.
\<close>

theorem C7_try_later_drops:
  assumes "GetResult mres = ResultCode_TRY_LATER \<or> GetResult mres = ResultCode_LIMIT_EXCEEDED"
  shows "(q = populateMetrics flushed r
            \<and> gRPC.status (metricsConn q) = OK
            \<and> messages (metrics q) \<noteq> []
            \<and> \<not> (retryActive (metrics q) \<and> retryTime (metrics q) > currTime (metricsConn q))
            \<and> setRetryDelay (currTime (metricsConn q)) (retryAmplifier (r_s q))
                 (maxMetricsRetries (r_s q)) (metrics q) = (True, m)
          \<longrightarrow> metrics (sendMetrics flushed (Some mres) r)
                = m\<lparr> messages := tl (messages (metrics q)) \<rparr>)
       \<and> (gRPC.status (metricsConn r) = OK
            \<and> (messages (grpcReporter.status r) \<noteq> [] \<or> sMsgs r \<noteq> [])
            \<and> \<not> (retryActive (grpcReporter.status r)
                   \<and> retryTime (grpcReporter.status r) > currTime (metricsConn r))
            \<and> setRetryDelay (currTime (metricsConn r)) (retryAmplifier (r_s r))
                 (maxMetricsRetries (r_s r)) (grpcReporter.status r) = (True, m')
          \<longrightarrow> grpcReporter.status (sendStatus (Some mres) r) = m'\<lparr> messages := [] \<rparr>)"
proof (intro conjI impI)
  assume "q = populateMetrics flushed r
            \<and> gRPC.status (metricsConn q) = OK
            \<and> messages (metrics q) \<noteq> []
            \<and> \<not> (retryActive (metrics q) \<and> retryTime (metrics q) > currTime (metricsConn q))
            \<and> setRetryDelay (currTime (metricsConn q)) (retryAmplifier (r_s q))
                 (maxMetricsRetries (r_s q)) (metrics q) = (True, m)"
  then show "metrics (sendMetrics flushed (Some mres) r)
                = m\<lparr> messages := tl (messages (metrics q)) \<rparr>"
    using sendMetrics_try_later [OF assms, of q flushed r m] by blast
next
  assume "gRPC.status (metricsConn r) = OK
            \<and> (messages (grpcReporter.status r) \<noteq> [] \<or> sMsgs r \<noteq> [])
            \<and> \<not> (retryActive (grpcReporter.status r)
                   \<and> retryTime (grpcReporter.status r) > currTime (metricsConn r))
            \<and> setRetryDelay (currTime (metricsConn r)) (retryAmplifier (r_s r))
                 (maxMetricsRetries (r_s r)) (grpcReporter.status r) = (True, m')"
  then show "grpcReporter.status (sendStatus (Some mres) r) = m'\<lparr> messages := [] \<rparr>"
    using sendStatus_try_later [OF assms, of r m'] by blast
qed

theorem C7_try_later_drops_witness:
  "(GetResult tryLater = ResultCode_TRY_LATER \<or> GetResult tryLater = ResultCode_LIMIT_EXCEEDED)
   \<and> messages (metrics exampleBacklog) = [buffer 1, buffer 2]
   \<and> messages (metrics (sendMetrics None (Some tryLater) exampleBacklog)) = [buffer 2]
   \<and> messages (grpcReporter.status (sendStatus (Some tryLater) exampleBacklog)) = []"
proof -
  have rc: "GetResult tryLater = ResultCode_TRY_LATER \<or> GetResult tryLater = ResultCode_LIMIT_EXCEEDED"
    by (simp add: tryLater_def)
  have ms: "messages (metrics exampleBacklog) = [buffer 1, buffer 2]"
    by (simp add: exampleBacklog_def)
  have st: "gRPC.status (metricsConn exampleBacklog) = OK"
    by (simp add: exampleBacklog_def exampleReporter_def newGRPCReporterWithConfig_def newGRPC_def)
  have due: "\<not> (retryActive (metrics exampleBacklog)
               \<and> retryTime (metrics exampleBacklog) > currTime (metricsConn exampleBacklog))"
    by (simp add: exampleBacklog_def exampleReporter_def newGRPCReporterWithConfig_def newSender_def)
  have due': "\<not> (retryActive (grpcReporter.status exampleBacklog)
               \<and> retryTime (grpcReporter.status exampleBacklog) > currTime (metricsConn exampleBacklog))"
    by (simp add: exampleBacklog_def exampleReporter_def newGRPCReporterWithConfig_def newSender_def)
  have ne': "messages (grpcReporter.status exampleBacklog) \<noteq> [] \<or> sMsgs exampleBacklog \<noteq> []"
    by (simp add: exampleBacklog_def buffer_def)
  have ok: "setRetryDelay (currTime (metricsConn exampleBacklog)) (retryAmplifier (r_s exampleBacklog))
              (maxMetricsRetries (r_s exampleBacklog)) (metrics exampleBacklog)
            = (True, snd (setRetryDelay (currTime (metricsConn exampleBacklog))
                (retryAmplifier (r_s exampleBacklog)) (maxMetricsRetries (r_s exampleBacklog))
                (metrics exampleBacklog)))"
    by (simp add: setRetryDelay_def Let_def exampleBacklog_def exampleReporter_def
        newGRPCReporterWithConfig_def newSender_def newDefaultSettings_def)
  have ok': "setRetryDelay (currTime (metricsConn exampleBacklog)) (retryAmplifier (r_s exampleBacklog))
              (maxMetricsRetries (r_s exampleBacklog)) (grpcReporter.status exampleBacklog)
            = (True, snd (setRetryDelay (currTime (metricsConn exampleBacklog))
                (retryAmplifier (r_s exampleBacklog)) (maxMetricsRetries (r_s exampleBacklog))
                (grpcReporter.status exampleBacklog)))"
    by (simp add: setRetryDelay_def Let_def exampleBacklog_def exampleReporter_def
        newGRPCReporterWithConfig_def newSender_def newDefaultSettings_def)
  note inst = C7_try_later_drops [OF rc, of exampleBacklog None exampleBacklog
      "snd (setRetryDelay (currTime (metricsConn exampleBacklog))
                (retryAmplifier (r_s exampleBacklog)) (maxMetricsRetries (r_s exampleBacklog))
                (metrics exampleBacklog))"
      "snd (setRetryDelay (currTime (metricsConn exampleBacklog))
                (retryAmplifier (r_s exampleBacklog)) (maxMetricsRetries (r_s exampleBacklog))
                (grpcReporter.status exampleBacklog))"]
  have m: "metrics (sendMetrics None (Some tryLater) exampleBacklog)
      = (snd (setRetryDelay (currTime (metricsConn exampleBacklog))
                (retryAmplifier (r_s exampleBacklog)) (maxMetricsRetries (r_s exampleBacklog))
                (metrics exampleBacklog)))\<lparr> messages := tl (messages (metrics exampleBacklog)) \<rparr>"
    using inst exampleBacklog_populate st ms due ok by simp
  have s: "grpcReporter.status (sendStatus (Some tryLater) exampleBacklog)
      = (snd (setRetryDelay (currTime (metricsConn exampleBacklog))
                (retryAmplifier (r_s exampleBacklog)) (maxMetricsRetries (r_s exampleBacklog))
                (grpcReporter.status exampleBacklog)))\<lparr> messages := [] \<rparr>"
    using inst st ne' due' ok' by blast
  show ?thesis
    using rc ms by (simp add: m s)
qed

text \<open>
  Claim C3, as the specification states it, fails: the \<^verbatim>\<open>OK\<close> branches never write
  \<^verbatim>\<open>nextRetryDelay\<close>. After one \<^verbatim>\<open>TRY_LATER\<close> answer and then an \<^verbatim>\<open>OK\<close> answer the
  metrics queue is empty and the backoff delay is still the doubled one, not the
  initial retry interval.
\<close>

theorem C3_backoff_not_restored:
  "messages (metrics metricsTryLaterThenOK) = []
   \<and> \<not> retryActive (metrics metricsTryLaterThenOK)
   \<and> initialRetryInterval (r_s metricsTryLaterThenOK) = 500 * Millisecond
   \<and> nextRetryDelay (metrics metricsTryLaterThenOK) = 1000 * Millisecond
   \<and> nextRetryDelay (metrics metricsTryLaterThenOK) \<noteq> initialRetryInterval (r_s metricsTryLaterThenOK)"
  by (simp add: metricsTryLaterThenOK_def sendMetrics_def populateMetrics_def tick_def
      exampleBacklog_def exampleReporter_def newGRPCReporterWithConfig_def newGRPC_def
      newSender_def newDefaultSettings_def setRetryDelay_def wrap64_def tryLater_def
      resultOK_def Millisecond_def Second_def Minute_def Let_def buffer_def)

text \<open>
  Claim C3, amended: whenever a post receives \<^verbatim>\<open>OK\<close>, the sender's retry-active flag is
  cleared and the connection's redirect counter is set to zero; the metrics and the
  status sender's queues are emptied; the metrics sender's retry counter is set to
  zero; the backoff delay \<^verbatim>\<open>nextRetryDelay\<close> is left as it is.
\<close>

theorem C3_ok_resets:
  "(GetResult mres = ResultCode_OK
      \<and> q = populateMetrics flushed r
      \<and> gRPC.status (metricsConn q) = OK
      \<and> messages (metrics q) \<noteq> []
      \<and> \<not> (retryActive (metrics q) \<and> retryTime (metrics q) > currTime (metricsConn q))
    \<longrightarrow> messages (metrics (sendMetrics flushed (Some mres) r)) = []
        \<and> Sender.retries (metrics (sendMetrics flushed (Some mres) r)) = 0
        \<and> \<not> retryActive (metrics (sendMetrics flushed (Some mres) r))
        \<and> nextRetryDelay (metrics (sendMetrics flushed (Some mres) r)) = nextRetryDelay (metrics r)
        \<and> redirects (metricsConn (sendMetrics flushed (Some mres) r)) = 0)
   \<and> (GetResult mres = ResultCode_OK
      \<and> gRPC.status (metricsConn r) = OK
      \<and> (messages (grpcReporter.status r) \<noteq> [] \<or> sMsgs r \<noteq> [])
      \<and> \<not> (retryActive (grpcReporter.status r)
             \<and> retryTime (grpcReporter.status r) > currTime (metricsConn r))
    \<longrightarrow> messages (grpcReporter.status (sendStatus (Some mres) r)) = []
        \<and> \<not> retryActive (grpcReporter.status (sendStatus (Some mres) r))
        \<and> nextRetryDelay (grpcReporter.status (sendStatus (Some mres) r))
            = nextRetryDelay (grpcReporter.status r)
        \<and> redirects (metricsConn (sendStatus (Some mres) r)) = 0)
   \<and> (GetSettingsResult sres = ResultCode_OK
      \<and> gRPC.status (metricsConn r) = OK
      \<and> settingsDue (currTime (metricsConn r)) r
    \<longrightarrow> \<not> retryActive (settings (getSettings (Some sres) r))
        \<and> nextRetryDelay (settings (getSettings (Some sres) r)) = nextRetryDelay (settings r)
        \<and> redirects (metricsConn (getSettings (Some sres) r)) = 0)"
proof (intro conjI impI)
  assume a: "GetResult mres = ResultCode_OK
      \<and> q = populateMetrics flushed r
      \<and> gRPC.status (metricsConn q) = OK
      \<and> messages (metrics q) \<noteq> []
      \<and> \<not> (retryActive (metrics q) \<and> retryTime (metrics q) > currTime (metricsConn q))"
  then have eq: "metrics (sendMetrics flushed (Some mres) r)
           = (metrics q)\<lparr> messages := [], Sender.retries := 0, retryActive := False \<rparr>"
    and rd: "redirects (metricsConn (sendMetrics flushed (Some mres) r)) = 0"
    using sendMetrics_ok [of mres q flushed r] by blast+
  from a have q: "q = populateMetrics flushed r" by blast
  show "messages (metrics (sendMetrics flushed (Some mres) r)) = []"
    by (simp add: eq)
  show "Sender.retries (metrics (sendMetrics flushed (Some mres) r)) = 0"
    by (simp add: eq)
  show "\<not> retryActive (metrics (sendMetrics flushed (Some mres) r))"
    by (simp add: eq)
  show "nextRetryDelay (metrics (sendMetrics flushed (Some mres) r)) = nextRetryDelay (metrics r)"
    by (simp add: eq q populateMetrics_frame)
  show "redirects (metricsConn (sendMetrics flushed (Some mres) r)) = 0"
    by (rule rd)
next
  assume a: "GetResult mres = ResultCode_OK
      \<and> gRPC.status (metricsConn r) = OK
      \<and> (messages (grpcReporter.status r) \<noteq> [] \<or> sMsgs r \<noteq> [])
      \<and> \<not> (retryActive (grpcReporter.status r)
             \<and> retryTime (grpcReporter.status r) > currTime (metricsConn r))"
  then have eq: "grpcReporter.status (sendStatus (Some mres) r)
           = (grpcReporter.status r)\<lparr> messages := [], retryActive := False \<rparr>"
    and rd: "redirects (metricsConn (sendStatus (Some mres) r)) = 0"
    using sendStatus_ok [of mres r] by blast+
  show "messages (grpcReporter.status (sendStatus (Some mres) r)) = []"
    by (simp add: eq)
  show "\<not> retryActive (grpcReporter.status (sendStatus (Some mres) r))"
    by (simp add: eq)
  show "nextRetryDelay (grpcReporter.status (sendStatus (Some mres) r))
            = nextRetryDelay (grpcReporter.status r)"
    by (simp add: eq)
  show "redirects (metricsConn (sendStatus (Some mres) r)) = 0"
    by (rule rd)
next
  assume a: "GetSettingsResult sres = ResultCode_OK
      \<and> gRPC.status (metricsConn r) = OK
      \<and> settingsDue (currTime (metricsConn r)) r"
  then have eq: "settings (getSettings (Some sres) r)
           = (settings r)\<lparr> nextTime := getNextTime (currTime (metricsConn r))
                                          (agentSettingsInterval (r_s r)),
                            retryActive := False \<rparr>"
    and rd: "redirects (metricsConn (getSettings (Some sres) r)) = 0"
    using getSettings_ok [of sres r] by blast+
  show "\<not> retryActive (settings (getSettings (Some sres) r))"
    by (simp add: eq)
  show "nextRetryDelay (settings (getSettings (Some sres) r)) = nextRetryDelay (settings r)"
    by (simp add: eq)
  show "redirects (metricsConn (getSettings (Some sres) r)) = 0"
    by (rule rd)
qed

theorem C3_ok_resets_witness:
  "GetResult resultOK = ResultCode_OK
   \<and> messages (metrics exampleBacklog) = [buffer 1, buffer 2]
   \<and> sMsgs exampleBacklog = [buffer 3]
   \<and> messages (metrics (sendMetrics None (Some resultOK) exampleBacklog)) = []
   \<and> Sender.retries (metrics (sendMetrics None (Some resultOK) exampleBacklog)) = 0
   \<and> messages (grpcReporter.status (sendStatus (Some resultOK) exampleBacklog)) = []
   \<and> settingsDue (currTime (metricsConn (tick Second exampleBacklog))) (tick Second exampleBacklog)
   \<and> redirects (metricsConn (getSettings (Some (SettingsResult ResultCode_OK [] []))
        (tick Second exampleBacklog))) = 0"
proof -
  have rc: "GetResult resultOK = ResultCode_OK"
    by (simp add: resultOK_def)
  have ms: "messages (metrics exampleBacklog) = [buffer 1, buffer 2]"
    by (simp add: exampleBacklog_def)
  have sm: "sMsgs exampleBacklog = [buffer 3]"
    by (simp add: exampleBacklog_def)
  have st: "gRPC.status (metricsConn exampleBacklog) = OK"
    by (simp add: exampleBacklog_def exampleReporter_def newGRPCReporterWithConfig_def newGRPC_def)
  have due: "\<not> (retryActive (metrics exampleBacklog)
               \<and> retryTime (metrics exampleBacklog) > currTime (metricsConn exampleBacklog))"
    by (simp add: exampleBacklog_def exampleReporter_def newGRPCReporterWithConfig_def newSender_def)
  have due': "\<not> (retryActive (grpcReporter.status exampleBacklog)
               \<and> retryTime (grpcReporter.status exampleBacklog) > currTime (metricsConn exampleBacklog))"
    by (simp add: exampleBacklog_def exampleReporter_def newGRPCReporterWithConfig_def newSender_def)
  have st2: "gRPC.status (metricsConn (tick Second exampleBacklog)) = OK"
    by (simp add: tick_def exampleBacklog_def exampleReporter_def newGRPCReporterWithConfig_def
        newGRPC_def)
  have sd: "settingsDue (currTime (metricsConn (tick Second exampleBacklog))) (tick Second exampleBacklog)"
    by (simp add: settingsDue_def tick_def exampleBacklog_def exampleReporter_def
        newGRPCReporterWithConfig_def newGRPC_def newSender_def Second_def)
  have one: "messages (metrics (sendMetrics None (Some resultOK) exampleBacklog)) = []
      \<and> Sender.retries (metrics (sendMetrics None (Some resultOK) exampleBacklog)) = 0"
    using C3_ok_resets [of resultOK exampleBacklog None exampleBacklog]
      rc exampleBacklog_populate st ms due by simp
  have two: "messages (grpcReporter.status (sendStatus (Some resultOK) exampleBacklog)) = []"
    using C3_ok_resets [of resultOK _ _ exampleBacklog] rc st sm due' by simp
  have three: "redirects (metricsConn (getSettings (Some (SettingsResult ResultCode_OK [] []))
        (tick Second exampleBacklog))) = 0"
    using C3_ok_resets [of _ _ _ "tick Second exampleBacklog" "SettingsResult ResultCode_OK [] []"]
      st2 sd by simp
  show ?thesis
    using rc ms sm sd one two three by blast
qed

section \<open>Bounds on retrying\<close>

text \<open>
  Claim C6, as the specification states it, fails: \<^verbatim>\<open>getSettings\<close> sets the settings
  sender's retry counter to zero before every call of \<^verbatim>\<open>setRetryDelay\<close>. With a
  ceiling of 2, the fourth consecutive \<^verbatim>\<open>TRY_LATER\<close> answer, at tick time 20 s, still
  schedules a retry (for 24 s); the backoff delay has been doubled four times, and the
  counter is 1.
\<close>

theorem C6_settings_retries_exceed_ceiling:
  "maxMetricsRetries (r_s settingsFourTryLater) = 2
   \<and> retryActive (settings settingsFourTryLater)
   \<and> retryTime (settings settingsFourTryLater) = 24 * Second
   \<and> nextRetryDelay (settings settingsFourTryLater) = 500 * Millisecond * 2 ^ 4
   \<and> Sender.retries (settings settingsFourTryLater) = 1"
  by (simp add: settingsFourTryLater_def lowCeilingReporter_def getSettings_def settingsDue_def
      tick_def newGRPCReporterWithConfig_def newGRPC_def newSender_def newDefaultSettings_def
      setRetryDelay_def wrap64_def settingsTryLater_def getNextTime_def Round_def
      Millisecond_def Second_def Minute_def Let_def)

text \<open>
  Claim C6, amended: \<^verbatim>\<open>setRetryDelay\<close> returns false, clears the retry-active flag and
  schedules nothing once the sender's retry counter has reached the ceiling. The settings
  sender is not bounded by the ceiling: whenever \<^verbatim>\<open>getSettings\<close> receives \<^verbatim>\<open>TRY_LATER\<close>
  or \<^verbatim>\<open>LIMIT_EXCEEDED\<close> under a positive ceiling, it schedules a retry at the tick time
  plus the current backoff delay and leaves the retry counter at 1, whatever the counter
  was before.
\<close>

theorem C6_settings_retry_unbounded:
  "(Sender.retries sn \<ge> mx
      \<longrightarrow> setRetryDelay now a mx sn = (False, sn\<lparr> retryActive := False \<rparr>))
   \<and> ((GetSettingsResult sres = ResultCode_TRY_LATER
         \<or> GetSettingsResult sres = ResultCode_LIMIT_EXCEEDED)
        \<and> gRPC.status (metricsConn r) = OK
        \<and> settingsDue (currTime (metricsConn r)) r
        \<and> 0 < maxMetricsRetries (r_s r)
      \<longrightarrow> retryActive (settings (getSettings (Some sres) r))
          \<and> Sender.retries (settings (getSettings (Some sres) r)) = 1
          \<and> retryTime (settings (getSettings (Some sres) r))
              = currTime (metricsConn r) + nextRetryDelay (settings r))"
proof (intro conjI impI)
  assume "Sender.retries sn \<ge> mx"
  then show "setRetryDelay now a mx sn = (False, sn\<lparr> retryActive := False \<rparr>)"
    by (simp add: setRetryDelay_def)
next
  assume a: "(GetSettingsResult sres = ResultCode_TRY_LATER
         \<or> GetSettingsResult sres = ResultCode_LIMIT_EXCEEDED)
        \<and> gRPC.status (metricsConn r) = OK
        \<and> settingsDue (currTime (metricsConn r)) r
        \<and> 0 < maxMetricsRetries (r_s r)"
  then have all: "retryActive (settings (getSettings (Some sres) r))
       \<and> Sender.retries (settings (getSettings (Some sres) r)) = 1
       \<and> retryTime (settings (getSettings (Some sres) r))
           = currTime (metricsConn r) + nextRetryDelay (settings r)"
    using getSettings_try_later [of sres r] by blast
  from all show "retryActive (settings (getSettings (Some sres) r))" by blast
  from all show "Sender.retries (settings (getSettings (Some sres) r)) = 1" by blast
  from all show "retryTime (settings (getSettings (Some sres) r))
           = currTime (metricsConn r) + nextRetryDelay (settings r)" by blast
qed

theorem C6_settings_retry_unbounded_witness:
  "Sender.retries (settings atCeiling) \<ge> maxMetricsRetries (r_s atCeiling)
   \<and> fst (setRetryDelay Second 2 (maxMetricsRetries (r_s atCeiling)) (settings atCeiling)) = False
   \<and> GetSettingsResult settingsTryLater = ResultCode_TRY_LATER
   \<and> gRPC.status (metricsConn atCeiling) = OK
   \<and> settingsDue (currTime (metricsConn atCeiling)) atCeiling
   \<and> 0 < maxMetricsRetries (r_s atCeiling)
   \<and> retryActive (settings (getSettings (Some settingsTryLater) atCeiling))
   \<and> Sender.retries (settings (getSettings (Some settingsTryLater) atCeiling)) = 1"
proof -
  have h0: "Sender.retries (settings atCeiling) \<ge> maxMetricsRetries (r_s atCeiling)"
    by (simp add: atCeiling_def tick_def lowCeilingReporter_def newGRPCReporterWithConfig_def
        newDefaultSettings_def)
  have h1: "GetSettingsResult settingsTryLater = ResultCode_TRY_LATER"
    by (simp add: settingsTryLater_def)
  have h2: "gRPC.status (metricsConn atCeiling) = OK"
    by (simp add: atCeiling_def tick_def lowCeilingReporter_def newGRPCReporterWithConfig_def
        newGRPC_def)
  have h3: "settingsDue (currTime (metricsConn atCeiling)) atCeiling"
    by (simp add: settingsDue_def atCeiling_def tick_def lowCeilingReporter_def
        newGRPCReporterWithConfig_def newGRPC_def newSender_def Second_def)
  have h4: "0 < maxMetricsRetries (r_s atCeiling)"
    by (simp add: atCeiling_def tick_def lowCeilingReporter_def newGRPCReporterWithConfig_def
        newDefaultSettings_def)
  note inst = C6_settings_retry_unbounded [where sn = "settings atCeiling"
      and mx = "maxMetricsRetries (r_s atCeiling)" and now = Second and a = 2
      and sres = settingsTryLater and r = atCeiling]
  have a: "fst (setRetryDelay Second 2 (maxMetricsRetries (r_s atCeiling)) (settings atCeiling)) = False"
    using inst h0 by simp
  have b: "retryActive (settings (getSettings (Some settingsTryLater) atCeiling))
   \<and> Sender.retries (settings (getSettings (Some settingsTryLater) atCeiling)) = 1"
    using inst h1 h2 h3 h4 by blast
  show ?thesis
    using h0 h1 h2 h3 h4 a b by blast
qed

text \<open>
  Claim C2, at settings whose \<^verbatim>\<open>maxRetryInterval\<close> is one second, with the initial retry
  interval of 500 ms and the amplifier 2: after two consecutive calls of \<^verbatim>\<open>setRetryDelay\<close>
  the retry counter is 2 and the backoff delay is two seconds, above the configured
  maximum. \<^verbatim>\<open>setRetryDelay\<close> caps the delay at the literal \<^verbatim>\<open>time.Minute\<close> and never reads
  \<^verbatim>\<open>maxRetryInterval\<close>.
\<close>

theorem C2_backoff_exceeds_configured_maximum:
  "initialRetryInterval shortCapSettings = 500 * Millisecond
   \<and> retryAmplifier shortCapSettings = 2
   \<and> maxRetryInterval shortCapSettings = Second
   \<and> retryTime shortCapSenderOnce = 0 + 500 * Millisecond
   \<and> retryTime shortCapSender = Second + 1000 * Millisecond
   \<and> Sender.retries shortCapSender = 2
   \<and> nextRetryDelay shortCapSender = 2 * Second
   \<and> min (maxRetryInterval shortCapSettings)
         (initialRetryInterval shortCapSettings * retryAmplifier shortCapSettings ^ 2) = Second"
  by (simp add: shortCapSender_def shortCapSenderOnce_def shortCapSettings_def
      newDefaultSettings_def newSender_def setRetryDelay_def wrap64_def Millisecond_def
      Second_def Minute_def Let_def)

text \<open>
  Under the default settings, where \<^verbatim>\<open>maxRetryInterval\<close> is the minute of the literal, the
  scenario of the specification holds: two consecutive \<^verbatim>\<open>TRY_LATER\<close> answers to the
  metrics sender, at tick times 0 and one second, schedule the retries 500 ms and then
  1000 ms after the tick, and the retry counter is 2.
\<close>

lemma default_two_try_later:
  "retryTime (metrics (sendMetrics None (Some tryLater) exampleBacklog)) = 0 + 500 * Millisecond
   \<and> retryTime (metrics metricsTwoTryLater) = Second + 1000 * Millisecond
   \<and> Sender.retries (metrics metricsTwoTryLater) = 2"
  by (simp add: metricsTwoTryLater_def sendMetrics_def populateMetrics_def tick_def
      exampleBacklog_def exampleReporter_def newGRPCReporterWithConfig_def newGRPC_def
      newSender_def newDefaultSettings_def setRetryDelay_def wrap64_def tryLater_def
      Millisecond_def Second_def Minute_def Let_def buffer_def getNextTime_def Round_def)

text \<open>
  With the cap read as the literal minute, the backoff formula holds: after \<open>n\<close>
  consecutive calls below the retry ceiling, the backoff delay is the smaller of one
  minute and the starting delay times the \<open>n\<close>-th power of the amplifier, and the
  retry counter has grown by \<open>n\<close>.
\<close>

lemma min_cap_power:
  fixes M D a :: int
  assumes "0 \<le> M" and "1 \<le> a" and "0 \<le> D"
  shows "min M (min M (D * a) * a ^ n) = min M (D * (a * a ^ n))"
proof (cases "D * a \<le> M")
  case True
  then show ?thesis by (simp add: min_def mult.assoc)
next
  case False
  have one: "1 \<le> a ^ n"
    using assms(2) by simp
  have "M * 1 \<le> M * a ^ n"
    using one assms(1) by (rule mult_left_mono)
  then have l: "min M (min M (D * a) * a ^ n) = M"
    using False by (simp add: min_def)
  have "0 \<le> D * a"
    using assms by simp
  with one have "(D * a) * 1 \<le> (D * a) * a ^ n"
    by (rule mult_left_mono)
  then have "M < D * (a * a ^ n)"
    using False by (simp add: mult.assoc)
  then have "min M (D * (a * a ^ n)) = M"
    by (simp add: min_def)
  with l show ?thesis by simp
qed

lemma setRetryDelay_below_ceiling:
  assumes a: "1 \<le> a" "a \<le> 100000000"
    and d: "0 \<le> nextRetryDelay sn" "nextRetryDelay sn \<le> Minute"
    and c: "Sender.retries sn < mx" "fits64 mx" "fits64 (Sender.retries sn)"
  shows "setRetryDelay now a mx sn =
           (True, sn\<lparr> retryTime := now + nextRetryDelay sn,
                       Sender.retries := Sender.retries sn + 1,
                       retryActive := True,
                       nextRetryDelay := min Minute (nextRetryDelay sn * a) \<rparr>)"
proof -
  have "fits64 (Sender.retries sn + 1)"
    using c by (simp add: fits64_def)
  then have w1: "wrap64 (Sender.retries sn + 1) = Sender.retries sn + 1"
    by (rule wrap64_id)
  have "0 \<le> nextRetryDelay sn * a"
    using a d by simp
  moreover have "nextRetryDelay sn * a \<le> Minute * 100000000"
    using a d by (intro mult_mono) (simp_all add: Minute_def)
  ultimately have "fits64 (nextRetryDelay sn * a)"
    by (simp add: fits64_def Minute_def)
  then have w2: "wrap64 (nextRetryDelay sn * a) = nextRetryDelay sn * a"
    by (rule wrap64_id)
  show ?thesis
    using c(1) by (simp add: setRetryDelay_def w1 w2 Let_def min_def)
qed

lemma backoff_after_n:
  assumes "1 \<le> a" and "a \<le> 100000000"
    and "0 \<le> nextRetryDelay sn" and "nextRetryDelay sn \<le> Minute"
    and "Sender.retries sn + int (length nows) \<le> mx"
    and "fits64 mx" and "fits64 (Sender.retries sn)"
  shows "nextRetryDelay (setRetryDelays nows a mx sn)
           = min Minute (nextRetryDelay sn * a ^ length nows)
       \<and> Sender.retries (setRetryDelays nows a mx sn) = Sender.retries sn + int (length nows)"
  using assms
proof (induction nows arbitrary: sn)
  case Nil
  then show ?case by simp
next
  case (Cons now nows)
  let ?sn = "sn\<lparr> retryTime := now + nextRetryDelay sn,
                    Sender.retries := Sender.retries sn + 1,
                    retryActive := True,
                    nextRetryDelay := min Minute (nextRetryDelay sn * a) \<rparr>"
  have lt: "Sender.retries sn < mx"
    using Cons.prems(5) by simp
  have step: "setRetryDelay now a mx sn = (True, ?sn)"
    using Cons.prems(1-4) lt Cons.prems(6,7) by (rule setRetryDelay_below_ceiling)
  have nonneg: "0 \<le> nextRetryDelay sn * a"
    using Cons.prems(1,3) by simp
  have p3: "0 \<le> nextRetryDelay ?sn"
    using nonneg by (simp add: Minute_def)
  have p4: "nextRetryDelay ?sn \<le> Minute"
    by simp
  have p5: "Sender.retries ?sn + int (length nows) \<le> mx"
    using Cons.prems(5) by simp
  have p7: "fits64 (Sender.retries ?sn)"
    using lt Cons.prems(6,7) by (simp add: fits64_def)
  have ih: "nextRetryDelay (setRetryDelays nows a mx ?sn)
           = min Minute (nextRetryDelay ?sn * a ^ length nows)
       \<and> Sender.retries (setRetryDelays nows a mx ?sn) = Sender.retries ?sn + int (length nows)"
    using Cons.prems(1,2) p3 p4 p5 Cons.prems(6) p7 by (rule Cons.IH)
  have "min Minute (min Minute (nextRetryDelay sn * a) * a ^ length nows)
          = min Minute (nextRetryDelay sn * (a * a ^ length nows))"
    using Cons.prems(1,3) by (intro min_cap_power) (simp_all add: Minute_def)
  with ih show ?case
    by (simp add: step)
qed

section \<open>Reconnection\<close>

lemma fits64_factor:
  assumes "fits64 (Second * x)"
  shows "fits64 x"
  using assms unfolding fits64_def Second_def by arith

lemma reconnect_dial_fails:
  assumes st: "gRPC.status g = DISCONNECTED"
    and le: "gRPC.retries g \<le> maxConnRetries s"
    and due: "nextRetryTime g \<le> currTime g"
    and dial: "dialGRPC cert addr = None"
    and f1: "fits64 (gRPC.retries g + 1)"
    and f2: "fits64 (Second * ((gRPC.retries g + 1) * retryAmplifier s))"
  shows "reconnect dialGRPC addr cert s g =
           g\<lparr> nextRetryTime := currTime g
                   + min (maxRetryInterval s) (Second * ((gRPC.retries g + 1) * retryAmplifier s)),
               gRPC.retries := gRPC.retries g + 1 \<rparr>"
proof -
  have w1: "wrap64 (gRPC.retries g + 1) = gRPC.retries g + 1"
    using f1 by (rule wrap64_id)
  have "fits64 ((gRPC.retries g + 1) * retryAmplifier s)"
    using f2 by (rule fits64_factor)
  then have w2: "wrap64 ((gRPC.retries g + 1) * retryAmplifier s)
                   = (gRPC.retries g + 1) * retryAmplifier s"
    by (rule wrap64_id)
  have w3: "wrap64 (Second * ((gRPC.retries g + 1) * retryAmplifier s))
              = Second * ((gRPC.retries g + 1) * retryAmplifier s)"
    using f2 by (rule wrap64_id)
  show ?thesis
    using st le due dial
    by (simp add: reconnect_def w1 w2 w3 Let_def min_def)
qed

text \<open>
  Claim C4, as the specification states it, fails: the guard of \<^verbatim>\<open>reconnect\<close> is
  \<^verbatim>\<open>g.retries > s.maxConnRetries\<close>. With \<^verbatim>\<open>maxConnRetries = 2\<close>, after two consecutive
  failed dials the retry counter is 2 and the connection is still \<^verbatim>\<open>DISCONNECTED\<close>, and
  the next call, at a tick when the retry is due, dials again: with a dial that succeeds
  the connection is healthy and holds the new client.
\<close>

theorem C4_dials_again_after_maxConnRetries_failures:
  "maxConnRetries retrySettings = 2
   \<and> gRPC.retries twoFailedDials = 2
   \<and> gRPC.status twoFailedDials = DISCONNECTED
   \<and> gRPC.status thirdDial = OK
   \<and> gRPC.client thirdDial = Some 7"
  by (simp add: thirdDial_def twoFailedDials_def disconnected_def retrySettings_def
      dialFails_def dialSucceeds_def reconnect_def newGRPC_def newDefaultSettings_def
      wrap64_def Second_def Minute_def Let_def)

text \<open>
  Claim C4, amended: \<^verbatim>\<open>reconnect\<close> changes nothing when the status is \<^verbatim>\<open>OK\<close> or
  \<^verbatim>\<open>CLOSING\<close>, whatever a dial would return, so a closing connection never dials again.
  When \<^verbatim>\<open>DISCONNECTED\<close> with the retry counter above \<^verbatim>\<open>maxConnRetries\<close> it sets the
  status to \<^verbatim>\<open>CLOSING\<close> and nothing else; the counter passes the ceiling only with the
  failed dial number \<^verbatim>\<open>maxConnRetries + 1\<close>. With the counter at or below the ceiling:
  when the next retry time is after the current tick time it changes nothing; otherwise
  it dials. A failed dial sets the next retry time to the tick time plus the smaller of
  \<^verbatim>\<open>maxRetryInterval\<close> and \<^verbatim>\<open>(retries + 1) * retryAmplifier\<close> seconds and adds one to the
  counter (the numbers are taken to fit 64 bits). A successful dial installs the client,
  sets the counter to zero, clears the retry time, sets the status to \<^verbatim>\<open>OK\<close> and sets
  the keep-alive time from the tick time.
\<close>

theorem C4_reconnect:
  "(gRPC.status g = OK \<or> gRPC.status g = CLOSING
      \<longrightarrow> reconnect dialGRPC addr cert s g = g)
   \<and> (gRPC.status g = DISCONNECTED \<and> gRPC.retries g > maxConnRetries s
      \<longrightarrow> reconnect dialGRPC addr cert s g = g\<lparr> gRPC.status := CLOSING \<rparr>)
   \<and> (gRPC.status g = DISCONNECTED \<and> gRPC.retries g \<le> maxConnRetries s
        \<and> nextRetryTime g > currTime g
      \<longrightarrow> reconnect dialGRPC addr cert s g = g)
   \<and> (gRPC.status g = DISCONNECTED \<and> gRPC.retries g \<le> maxConnRetries s
        \<and> nextRetryTime g \<le> currTime g \<and> dialGRPC cert addr = None
        \<and> fits64 (gRPC.retries g + 1)
        \<and> fits64 (Second * ((gRPC.retries g + 1) * retryAmplifier s))
      \<longrightarrow> reconnect dialGRPC addr cert s g =
            g\<lparr> nextRetryTime := currTime g
                    + min (maxRetryInterval s) (Second * ((gRPC.retries g + 1) * retryAmplifier s)),
                gRPC.retries := gRPC.retries g + 1 \<rparr>)
   \<and> (gRPC.status g = DISCONNECTED \<and> gRPC.retries g \<le> maxConnRetries s
        \<and> nextRetryTime g \<le> currTime g \<and> dialGRPC cert addr = Some c
      \<longrightarrow> reconnect dialGRPC addr cert s g =
            g\<lparr> gRPC.client := Some c,
                gRPC.retries := 0,
                nextRetryTime := 0,
                gRPC.status := OK,
                nextKeepAliveTime := getNextTime (currTime g) (metricsConnKeepAliveInterval s) \<rparr>)"
proof (intro conjI impI)
  assume "gRPC.status g = OK \<or> gRPC.status g = CLOSING"
  then show "reconnect dialGRPC addr cert s g = g"
    by (auto simp add: reconnect_def)
next
  assume "gRPC.status g = DISCONNECTED \<and> gRPC.retries g > maxConnRetries s"
  then show "reconnect dialGRPC addr cert s g = g\<lparr> gRPC.status := CLOSING \<rparr>"
    by (simp add: reconnect_def)
next
  assume "gRPC.status g = DISCONNECTED \<and> gRPC.retries g \<le> maxConnRetries s
        \<and> nextRetryTime g > currTime g"
  then show "reconnect dialGRPC addr cert s g = g"
    by (simp add: reconnect_def)
next
  assume "gRPC.status g = DISCONNECTED \<and> gRPC.retries g \<le> maxConnRetries s
        \<and> nextRetryTime g \<le> currTime g \<and> dialGRPC cert addr = None
        \<and> fits64 (gRPC.retries g + 1)
        \<and> fits64 (Second * ((gRPC.retries g + 1) * retryAmplifier s))"
  then show "reconnect dialGRPC addr cert s g =
            g\<lparr> nextRetryTime := currTime g
                    + min (maxRetryInterval s) (Second * ((gRPC.retries g + 1) * retryAmplifier s)),
                gRPC.retries := gRPC.retries g + 1 \<rparr>"
    using reconnect_dial_fails [of g s dialGRPC cert addr] by blast
next
  assume "gRPC.status g = DISCONNECTED \<and> gRPC.retries g \<le> maxConnRetries s
        \<and> nextRetryTime g \<le> currTime g \<and> dialGRPC cert addr = Some c"
  then show "reconnect dialGRPC addr cert s g =
            g\<lparr> gRPC.client := Some c,
                gRPC.retries := 0,
                nextRetryTime := 0,
                gRPC.status := OK,
                nextKeepAliveTime := getNextTime (currTime g) (metricsConnKeepAliveInterval s) \<rparr>"
    by (simp add: reconnect_def)
qed

theorem C4_reconnect_witness:
  "gRPC.status (newGRPC (Some 2)) = OK
   \<and> reconnect dialSucceeds ''collector'' ''ca.crt'' retrySettings (newGRPC (Some 2))
       = newGRPC (Some 2)
   \<and> gRPC.retries (disconnected\<lparr> gRPC.retries := 3 \<rparr>) > maxConnRetries retrySettings
   \<and> gRPC.status (reconnect dialSucceeds ''collector'' ''ca.crt'' retrySettings
         (disconnected\<lparr> gRPC.retries := 3 \<rparr>)) = CLOSING
   \<and> nextRetryTime (disconnected\<lparr> nextRetryTime := Second \<rparr>)
       > currTime (disconnected\<lparr> nextRetryTime := Second \<rparr>)
   \<and> reconnect dialSucceeds ''collector'' ''ca.crt'' retrySettings
         (disconnected\<lparr> nextRetryTime := Second \<rparr>) = disconnected\<lparr> nextRetryTime := Second \<rparr>
   \<and> dialFails ''ca.crt'' ''collector'' = None
   \<and> nextRetryTime (reconnect dialFails ''collector'' ''ca.crt'' retrySettings disconnected)
       = 2 * Second
   \<and> gRPC.retries (reconnect dialFails ''collector'' ''ca.crt'' retrySettings disconnected) = 1
   \<and> dialSucceeds ''ca.crt'' ''collector'' = Some 7
   \<and> gRPC.status (reconnect dialSucceeds ''collector'' ''ca.crt'' retrySettings disconnected) = OK"
proof -
  note inst = C4_reconnect [where addr = "''collector''" and cert = "''ca.crt''"
      and s = retrySettings]
  have a0: "gRPC.status (newGRPC (Some 2)) = OK"
    by (simp add: newGRPC_def)
  have a: "reconnect dialSucceeds ''collector'' ''ca.crt'' retrySettings (newGRPC (Some 2))
       = newGRPC (Some 2)"
    using inst [where g = "newGRPC (Some 2)" and dialGRPC = dialSucceeds] a0 by blast
  have st: "\<And>f. gRPC.status (disconnected\<lparr> gRPC.retries := f \<rparr>) = DISCONNECTED"
    "gRPC.status (disconnected\<lparr> nextRetryTime := Second \<rparr>) = DISCONNECTED"
    "gRPC.status disconnected = DISCONNECTED"
    by (simp_all add: disconnected_def)
  have b0: "gRPC.retries (disconnected\<lparr> gRPC.retries := 3 \<rparr>) > maxConnRetries retrySettings"
    by (simp add: retrySettings_def)
  have "reconnect dialSucceeds ''collector'' ''ca.crt'' retrySettings
         (disconnected\<lparr> gRPC.retries := 3 \<rparr>)
        = (disconnected\<lparr> gRPC.retries := 3 \<rparr>)\<lparr> gRPC.status := CLOSING \<rparr>"
    using inst [where g = "disconnected\<lparr> gRPC.retries := 3 \<rparr>" and dialGRPC = dialSucceeds]
      st(1) b0 by blast
  then have b: "gRPC.status (reconnect dialSucceeds ''collector'' ''ca.crt'' retrySettings
         (disconnected\<lparr> gRPC.retries := 3 \<rparr>)) = CLOSING"
    by simp
  have le: "gRPC.retries (disconnected\<lparr> nextRetryTime := Second \<rparr>) \<le> maxConnRetries retrySettings"
    "gRPC.retries disconnected \<le> maxConnRetries retrySettings"
    by (simp_all add: disconnected_def newGRPC_def retrySettings_def)
  have c0: "nextRetryTime (disconnected\<lparr> nextRetryTime := Second \<rparr>)
       > currTime (disconnected\<lparr> nextRetryTime := Second \<rparr>)"
    by (simp add: disconnected_def newGRPC_def Second_def)
  have c: "reconnect dialSucceeds ''collector'' ''ca.crt'' retrySettings
         (disconnected\<lparr> nextRetryTime := Second \<rparr>) = disconnected\<lparr> nextRetryTime := Second \<rparr>"
    using inst [where g = "disconnected\<lparr> nextRetryTime := Second \<rparr>" and dialGRPC = dialSucceeds]
      st(2) le(1) c0 by blast
  have due: "nextRetryTime disconnected \<le> currTime disconnected"
    by (simp add: disconnected_def newGRPC_def)
  have d0: "dialFails ''ca.crt'' ''collector'' = None"
    by (simp add: dialFails_def)
  have f1: "fits64 (gRPC.retries disconnected + 1)"
    by (simp add: disconnected_def newGRPC_def fits64_def)
  have f2: "fits64 (Second * ((gRPC.retries disconnected + 1) * retryAmplifier retrySettings))"
    by (simp add: disconnected_def newGRPC_def fits64_def retrySettings_def newDefaultSettings_def
        Second_def)
  have "reconnect dialFails ''collector'' ''ca.crt'' retrySettings disconnected =
      disconnected\<lparr> nextRetryTime := currTime disconnected
          + min (maxRetryInterval retrySettings)
              (Second * ((gRPC.retries disconnected + 1) * retryAmplifier retrySettings)),
        gRPC.retries := gRPC.retries disconnected + 1 \<rparr>"
    using inst [where g = disconnected and dialGRPC = dialFails] st(3) le(2) due d0 f1 f2
    by blast
  then have d: "nextRetryTime (reconnect dialFails ''collector'' ''ca.crt'' retrySettings disconnected)
       = 2 * Second
     \<and> gRPC.retries (reconnect dialFails ''collector'' ''ca.crt'' retrySettings disconnected) = 1"
    by (simp add: disconnected_def newGRPC_def retrySettings_def newDefaultSettings_def
        Second_def Minute_def)
  have e0: "dialSucceeds ''ca.crt'' ''collector'' = Some 7"
    by (simp add: dialSucceeds_def)
  have "reconnect dialSucceeds ''collector'' ''ca.crt'' retrySettings disconnected =
      disconnected\<lparr> gRPC.client := Some 7, gRPC.retries := 0, nextRetryTime := 0,
        gRPC.status := OK,
        nextKeepAliveTime := getNextTime (currTime disconnected)
          (metricsConnKeepAliveInterval retrySettings) \<rparr>"
    using inst [where g = disconnected and dialGRPC = dialSucceeds and c = 7] st(3) le(2) due e0
    by blast
  then have e: "gRPC.status (reconnect dialSucceeds ''collector'' ''ca.crt'' retrySettings disconnected) = OK"
    by simp
  show ?thesis
    using a0 a b0 b c0 c d0 d e0 e by blast
qed

section \<open>Validation of an event against its context\<close>

text \<open>
  Claim C8, as the specification states it, fails for \<^verbatim>\<open>reportEvent\<close>: the check of
  \<^verbatim>\<open>IsOpen\<close> comes first, so on a reporter that is not open an event of another task
  is answered with no error (and nothing is written).
\<close>

theorem C8_closed_reporter_returns_no_error:
  "taskID (ids (event.metadata otherTaskEvent)) \<noteq> taskID (ids (oboeContext.metadata exampleContext))
   \<and> reportEvent plainEncoder 5 ''host'' 3 (0, None) NullReporter
         (Some exampleContext) (Some otherTaskEvent)
       = Inr (None, NullReporter, Some exampleContext, Some otherTaskEvent)"
  by (simp add: reportEvent_def otherTaskEvent_def exampleContext_def)

text \<open>
  Claim C8, amended: for an event whose task identifier differs from the context's, or
  whose operation identifier equals the context's, \<^verbatim>\<open>prepareEvent\<close> returns a validation
  error and leaves context and event as they are; \<^verbatim>\<open>reportEvent\<close> on an open reporter
  returns a validation error, and on a reporter that is not open returns no error; in
  every one of these cases \<^verbatim>\<open>reportEvent\<close> leaves the reporter, the context and the
  event as they are, so nothing is sent on the channel and no packet is written.
\<close>

theorem C8_invalid_event_rejected:
  assumes "taskID (ids (event.metadata ev)) \<noteq> taskID (ids (oboeContext.metadata c))
           \<or> opID (ids (event.metadata ev)) = opID (ids (oboeContext.metadata c))"
  shows "prepareEvent enc us host pid (Some c) (Some ev)
           = (Some (if taskID (ids (oboeContext.metadata c)) \<noteq> taskID (ids (event.metadata ev))
                    then ''invalid event, different task_id from context''
                    else ''invalid event, same as context''),
              Some c, Some ev)
       \<and> (IsOpen r \<longrightarrow>
            reportEvent enc us host pid w r (Some c) (Some ev)
              = Inr (Some (if taskID (ids (oboeContext.metadata c)) \<noteq> taskID (ids (event.metadata ev))
                           then ''Invalid event, different task_id from context''
                           else ''Invalid event, same as context''),
                     r, Some c, Some ev))
       \<and> (\<not> IsOpen r \<longrightarrow>
            reportEvent enc us host pid w r (Some c) (Some ev) = Inr (None, r, Some c, Some ev))"
  using assms by (auto simp add: prepareEvent_def reportEvent_def)

theorem C8_invalid_event_rejected_witness:
  "opID (ids (event.metadata sameOpEvent)) = opID (ids (oboeContext.metadata exampleContext))
   \<and> taskID (ids (event.metadata otherTaskEvent)) \<noteq> taskID (ids (oboeContext.metadata exampleContext))
   \<and> IsOpen (GrpcReporter exampleReporter)
   \<and> \<not> IsOpen (UdpReporter None)
   \<and> prepareEvent plainEncoder 5 ''host'' 3 (Some exampleContext) (Some sameOpEvent)
       = (Some ''invalid event, same as context'', Some exampleContext, Some sameOpEvent)
   \<and> reportEvent plainEncoder 5 ''host'' 3 (0, None) (GrpcReporter exampleReporter)
         (Some exampleContext) (Some sameOpEvent)
       = Inr (Some ''Invalid event, same as context'', GrpcReporter exampleReporter,
              Some exampleContext, Some sameOpEvent)
   \<and> reportEvent plainEncoder 5 ''host'' 3 (0, None) (GrpcReporter exampleReporter)
         (Some exampleContext) (Some otherTaskEvent)
       = Inr (Some ''Invalid event, different task_id from context'', GrpcReporter exampleReporter,
              Some exampleContext, Some otherTaskEvent)
   \<and> reportEvent plainEncoder 5 ''host'' 3 (0, None) (UdpReporter None)
         (Some exampleContext) (Some otherTaskEvent)
       = Inr (None, UdpReporter None, Some exampleContext, Some otherTaskEvent)"
proof -
  have h: "opID (ids (event.metadata sameOpEvent)) = opID (ids (oboeContext.metadata exampleContext))"
    by (simp add: sameOpEvent_def exampleContext_def)
  have same: "taskID (ids (oboeContext.metadata exampleContext)) = taskID (ids (event.metadata sameOpEvent))"
    by (simp add: sameOpEvent_def exampleContext_def)
  have other: "taskID (ids (event.metadata otherTaskEvent)) \<noteq> taskID (ids (oboeContext.metadata exampleContext))"
    by (simp add: otherTaskEvent_def exampleContext_def)
  have op: "IsOpen (GrpcReporter exampleReporter)"
    by (simp add: exampleReporter_def newGRPCReporterWithConfig_def)
  have cl: "\<not> IsOpen (UdpReporter None)"
    by simp
  note inst = C8_invalid_event_rejected [where ev = sameOpEvent and c = exampleContext
      and enc = plainEncoder and us = 5 and host = "''host''" and pid = 3 and w = "(0, None)"
      and r = "GrpcReporter exampleReporter", OF disjI2, OF h]
  have a: "prepareEvent plainEncoder 5 ''host'' 3 (Some exampleContext) (Some sameOpEvent)
       = (Some ''invalid event, same as context'', Some exampleContext, Some sameOpEvent)"
    using inst same by simp
  have b: "reportEvent plainEncoder 5 ''host'' 3 (0, None) (GrpcReporter exampleReporter)
         (Some exampleContext) (Some sameOpEvent)
       = Inr (Some ''Invalid event, same as context'', GrpcReporter exampleReporter,
              Some exampleContext, Some sameOpEvent)"
    using inst same op by simp
  have c: "reportEvent plainEncoder 5 ''host'' 3 (0, None) (GrpcReporter exampleReporter)
         (Some exampleContext) (Some otherTaskEvent)
       = Inr (Some ''Invalid event, different task_id from context'', GrpcReporter exampleReporter,
              Some exampleContext, Some otherTaskEvent)"
    using C8_invalid_event_rejected [where ev = otherTaskEvent and c = exampleContext
      and enc = plainEncoder and us = 5 and host = "''host''" and pid = 3 and w = "(0, None)"
      and r = "GrpcReporter exampleReporter", OF disjI1, OF other] other op
    by (simp add: eq_commute [of "taskID (ids (oboeContext.metadata exampleContext))"])
  have d: "reportEvent plainEncoder 5 ''host'' 3 (0, None) (UdpReporter None)
         (Some exampleContext) (Some otherTaskEvent)
       = Inr (None, UdpReporter None, Some exampleContext, Some otherTaskEvent)"
    using C8_invalid_event_rejected [where ev = otherTaskEvent and c = exampleContext
      and enc = plainEncoder and us = 5 and host = "''host''" and pid = 3 and w = "(0, None)"
      and r = "UdpReporter None", OF disjI1, OF other] cl
    by blast
  show ?thesis
    using h other op cl a b c d by blast
qed

end
